theory Spec2Isabelle
  imports Complex_Main
begin

section \<open>Values of the host language\<close>

text \<open>
  The neuron layers of \<^verbatim>\<open>block/nn/layers.py\<close> are Python classes built on torch.
  Exceptions are values of the type \<open>error\<close>; a call that can raise returns
  \<open>error + 'a\<close> with \<open>Inl\<close> for the exception.
\<close>

datatype error =
    NotImplementedError
  | TypeError
  | ValueError
  | RuntimeError
  | IndexError
  | ZeroDivisionError

text \<open>
  The Python values that travel through \<^verbatim>\<open>**kwargs\<close> and through the
  hyperparameter dictionaries.
\<close>

datatype pyval =
    PNone
  | PBool bool
  | PInt int
  | PFloat real
  | PStr string
  | PList "pyval list"

text \<open>Python's truth value of an object, as \<^verbatim>\<open>if v\<close> and \<^verbatim>\<open>not v\<close> test it.\<close>

fun truthy :: "pyval \<Rightarrow> bool" where
  "truthy PNone = False"
| "truthy (PBool b) = b"
| "truthy (PInt i) = (i \<noteq> 0)"
| "truthy (PFloat r) = (r \<noteq> 0)"
| "truthy (PStr s) = (s \<noteq> [])"
| "truthy (PList vs) = (vs \<noteq> [])"

type_synonym pydict = "string \<rightharpoonup> pyval"

text \<open>\<^verbatim>\<open>d.get(key, default)\<close>\<close>

definition dict_get :: "pydict \<Rightarrow> string \<Rightarrow> pyval \<Rightarrow> pyval" where
  "dict_get d k dflt = (case d k of None \<Rightarrow> dflt | Some v \<Rightarrow> v)"

section \<open>Tensors\<close>

text \<open>
  A tensor is its shape together with its entries in row-major (logical) order.
  Entries are \<open>real\<close> where the layers compute with them: rounding of floating-point
  arithmetic is not part of the model.
\<close>

record 'a tensor =
  shape :: "nat list"
  data :: "'a list"

definition numel :: "nat list \<Rightarrow> nat" where
  "numel sh = prod_list sh"

text \<open>A tensor is well formed when it has as many entries as its shape says.\<close>

definition wf_tensor :: "'a tensor \<Rightarrow> bool" where
  "wf_tensor T = (length (data T) = numel (shape T))"

text \<open>The position of the entry with index \<open>idx\<close> in the row-major order.\<close>

fun ravel :: "nat list \<Rightarrow> nat list \<Rightarrow> nat" where
  "ravel (d # ds) (i # is) = i * numel ds + ravel ds is"
| "ravel _ _ = 0"

text \<open>\<^verbatim>\<open>T[i0, i1, ...]\<close>, for an index inside the shape.\<close>

definition entry :: "'a tensor \<Rightarrow> nat list \<Rightarrow> 'a" where
  "entry T idx = data T ! ravel (shape T) idx"

text \<open>An index is inside a shape when it has one coordinate per axis, each below the extent.\<close>

definition in_shape :: "nat list \<Rightarrow> nat list \<Rightarrow> bool" where
  "in_shape idx sh = list_all2 (<) idx sh"

text \<open>All indices of a shape, in row-major order.\<close>

fun indices :: "nat list \<Rightarrow> nat list list" where
  "indices [] = [[]]"
| "indices (d # ds) = concat (map (\<lambda>i. map ((#) i) (indices ds)) [0..<d])"

text \<open>The tensor of shape \<open>sh\<close> whose entry at \<open>idx\<close> is \<open>g idx\<close>.\<close>

definition tabulate :: "nat list \<Rightarrow> (nat list \<Rightarrow> 'a) \<Rightarrow> 'a tensor" where
  "tabulate sh g = \<lparr>shape = sh, data = map g (indices sh)\<rparr>"

text \<open>The position of \<open>d\<close> in the list \<open>p\<close>.\<close>

fun position :: "nat list \<Rightarrow> nat \<Rightarrow> nat" where
  "position [] d = 0"
| "position (x # xs) d = (if x = d then 0 else Suc (position xs d))"

text \<open>
  \<^verbatim>\<open>T.permute(*dims)\<close>: axis \<open>k\<close> of the result is axis \<open>dims ! k\<close> of \<open>T\<close>, so the entry
  of the result at \<open>idx\<close> is the entry of \<open>T\<close> whose coordinate on axis \<open>dims ! k\<close> is
  \<open>idx ! k\<close>. torch raises when the number of axes differs, when an axis is out of
  range and when an axis is repeated.
\<close>

definition source_index :: "nat list \<Rightarrow> nat list \<Rightarrow> nat list" where
  "source_index dims idx = map (\<lambda>a. idx ! position dims a) [0..<length dims]"

definition permute :: "nat list \<Rightarrow> 'a tensor \<Rightarrow> error + 'a tensor" where
  "permute dims T =
     (if length dims \<noteq> length (shape T) then Inl RuntimeError
      else if \<not> list_all (\<lambda>d. d < length (shape T)) dims then Inl IndexError
      else if \<not> distinct dims then Inl RuntimeError
      else Inr (tabulate (map (\<lambda>d. shape T ! d) dims) (\<lambda>idx. entry T (source_index dims idx))))"

text \<open>
  \<^verbatim>\<open>T.flatten(start_dim, end_dim)\<close>: the axes from \<open>start_dim\<close> to \<open>end_dim\<close> become one
  axis; the entries keep their row-major order.
\<close>

definition flatten :: "nat \<Rightarrow> nat \<Rightarrow> 'a tensor \<Rightarrow> error + 'a tensor" where
  "flatten start_dim end_dim T =
     (if \<not> (start_dim < length (shape T) \<and> end_dim < length (shape T)) then Inl IndexError
      else if end_dim < start_dim then Inl RuntimeError
      else Inr \<lparr>shape = take start_dim (shape T)
                          @ [numel (take (Suc end_dim - start_dim) (drop start_dim (shape T)))]
                          @ drop (Suc end_dim) (shape T),
                 data = data T\<rparr>)"

text \<open>
  \<^verbatim>\<open>T.view(*sh)\<close>: the same entries under another shape; torch raises when the number
  of entries differs. (torch also raises for some tensors whose memory is not
  contiguous; splitting one axis, the only use in the layers, is possible for every
  memory layout.)
\<close>

definition view :: "nat list \<Rightarrow> 'a tensor \<Rightarrow> error + 'a tensor" where
  "view sh T =
     (if numel sh \<noteq> length (data T) then Inl RuntimeError
      else Inr \<lparr>shape = sh, data = data T\<rparr>)"

text \<open>\<^verbatim>\<open>T + c\<close> and \<^verbatim>\<open>c + T\<close> for a number \<open>c\<close>.\<close>

definition add_scalar :: "real \<Rightarrow> real tensor \<Rightarrow> real tensor" where
  "add_scalar c T = \<lparr>shape = shape T, data = map (\<lambda>v. v + c) (data T)\<rparr>"

text \<open>
  Broadcasting of two shapes, aligned at the last axis: extents must agree or one of
  them must be 1. \<open>broadcast_rev\<close> works on the reversed shapes.
\<close>

fun broadcast_rev :: "nat list \<Rightarrow> nat list \<Rightarrow> nat list option" where
  "broadcast_rev [] ys = Some ys"
| "broadcast_rev (x # xs) [] = Some (x # xs)"
| "broadcast_rev (x # xs) (y # ys) =
     (if x = y \<or> y = 1 then map_option ((#) x) (broadcast_rev xs ys)
      else if x = 1 then map_option ((#) y) (broadcast_rev xs ys)
      else None)"

definition broadcast_shapes :: "nat list \<Rightarrow> nat list \<Rightarrow> nat list option" where
  "broadcast_shapes s1 s2 = map_option rev (broadcast_rev (rev s1) (rev s2))"

text \<open>The index into a tensor of shape \<open>sh\<close> that the index \<open>idx\<close> of the broadcast result reads.\<close>

definition broadcast_index :: "nat list \<Rightarrow> nat list \<Rightarrow> nat list" where
  "broadcast_index sh idx =
     map2 (\<lambda>d i. if d = 1 then 0 else i) sh (drop (length idx - length sh) idx)"

text \<open>\<^verbatim>\<open>A * B\<close> for two tensors.\<close>

definition tmul :: "real tensor \<Rightarrow> real tensor \<Rightarrow> error + real tensor" where
  "tmul A B =
     (case broadcast_shapes (shape A) (shape B) of
        None \<Rightarrow> Inl RuntimeError
      | Some sh \<Rightarrow>
          Inr (tabulate sh (\<lambda>idx. entry A (broadcast_index (shape A) idx)
                                  * entry B (broadcast_index (shape B) idx))))"

text \<open>
  A module \<^verbatim>\<open>nn.Linear(in_features, out_features)\<close>: the weight has shape
  \<open>[out_features, in_features]\<close>, the bias \<open>[out_features]\<close>.
\<close>

record linear =
  in_features :: nat
  out_features :: nat
  weight :: "real tensor"
  bias :: "real tensor"

definition wf_linear :: "linear \<Rightarrow> bool" where
  "wf_linear L = (wf_tensor (weight L) \<and> shape (weight L) = [out_features L, in_features L]
                  \<and> wf_tensor (bias L) \<and> shape (bias L) = [out_features L])"

text \<open>The affine map of the module on one vector \<open>v\<close>, at output \<open>j\<close>.\<close>

definition affine :: "linear \<Rightarrow> (nat \<Rightarrow> real) \<Rightarrow> nat \<Rightarrow> real" where
  "affine L v j = (\<Sum>i\<leftarrow>[0..<in_features L]. v i * entry (weight L) [j, i]) + entry (bias L) [j]"

text \<open>
  Calling the module: the affine map is applied along the last axis of the input,
  which must have \<open>in_features\<close> entries.
\<close>

definition linear_call :: "linear \<Rightarrow> real tensor \<Rightarrow> error + real tensor" where
  "linear_call L x =
     (if shape x = [] \<or> last (shape x) \<noteq> in_features L then Inl RuntimeError
      else Inr (tabulate (butlast (shape x) @ [out_features L])
                  (\<lambda>idx. affine L (\<lambda>i. entry x (butlast idx @ [i])) (last idx))))"

text \<open>A transform whose computation is library code, such as a module \<^verbatim>\<open>nn.Conv3d\<close>.\<close>

type_synonym transform = "real tensor \<Rightarrow> error + real tensor"

section \<open>The base layer\<close>

definition METHOD_STANDARD :: string where
  "METHOD_STANDARD = ''standard''"

definition METHOD_FAST_NAIVE :: string where
  "METHOD_FAST_NAIVE = ''fast_naive''"

definition METHOD_FAST_OPTIMISED :: string where
  "METHOD_FAST_OPTIMISED = ''fast_optimised''"

text \<open>The five classes of the module; the last four derive from \<open>BaseNeurons\<close>.\<close>

datatype neuron_class = BaseNeurons | LinearNeurons | ConvNeurons | PolyNeurons | PolyConvNeurons

text \<open>
  A spike function is a callable object. \<open>fn_name\<close> says which function it is
  (the default is \<^verbatim>\<open>FastSigmoid.apply\<close>); \<open>callable_class\<close> is the name of the class
  of the callable object itself, which is what \<^verbatim>\<open>f.__class__.__name__\<close> reads.
\<close>

datatype spike_fn = Spike_fn (fn_name: string) (callable_class: string)

text \<open>
  \<^verbatim>\<open>self.get_recurrent_current\<close> is a method bound to the layer; the class of the layer
  decides which definition runs.
\<close>

datatype bound_method = Get_recurrent_current neuron_class

text \<open>
  The integration strategies are classes of \<^verbatim>\<open>block.nn.methods\<close>. A strategy object is
  represented by the constructor call that makes it, with the arguments in the order
  of the call: \<^verbatim>\<open>MethodStandard(t_len, spike_func, scale, single_spike, integrator,
  recurrent_source)\<close> and \<^verbatim>\<open>MethodFastNaive(t_len, spike_func, scale, beta)\<close>.
\<close>

datatype strategy =
    MethodStandard nat spike_fn real pyval pyval "bound_method option"
  | MethodFastNaive nat spike_fn real "real list"

text \<open>
  The attributes that \<^verbatim>\<open>BaseNeurons.__init__\<close> sets. An attribute \<^verbatim>\<open>self._x\<close> of the
  source is the field \<open>self_x\<close>; \<open>self_class\<close> is the class of the object. \<open>self_method_func\<close> is \<open>None\<close>
  when \<^verbatim>\<open>_get_method_func\<close> falls through all its branches and returns \<^verbatim>\<open>None\<close>.
\<close>

record base_neurons =
  self_class :: neuron_class
  self_method :: string
  self_t_len :: nat
  self_beta_init :: "real list"
  self_beta_requires_grad :: bool
  self_spike_func :: spike_fn
  self_scale :: real
  self_beta :: "real list"
  self_method_func :: "strategy option"

text \<open>\<^verbatim>\<open>torch.clamp(t, min=0.00, max=1)\<close> on a tensor of one axis: a new tensor.\<close>

definition clamp :: "real \<Rightarrow> real \<Rightarrow> real list \<Rightarrow> real list" where
  "clamp lo hi t = map (\<lambda>b. min (max b lo) hi) t"

text \<open>The property \<^verbatim>\<open>beta\<close>.\<close>

definition beta :: "'a base_neurons_scheme \<Rightarrow> real list" where
  "beta self = clamp 0 1 (self_beta self)"

text \<open>\<^verbatim>\<open>BaseNeurons.get_recurrent_current\<close>\<close>

definition BaseNeurons_get_recurrent_current :: "real tensor \<Rightarrow> error + real tensor" where
  "BaseNeurons_get_recurrent_current spikes = Inl NotImplementedError"

text \<open>
  Method resolution for \<^verbatim>\<open>get_recurrent_current\<close>: none of the four subclasses defines
  the method (the definitions in \<open>LinearNeurons\<close> and \<open>PolyNeurons\<close> are commented
  out), so each inherits the one of \<open>BaseNeurons\<close>.
\<close>

fun get_recurrent_current :: "neuron_class \<Rightarrow> real tensor \<Rightarrow> error + real tensor" where
  "get_recurrent_current BaseNeurons = BaseNeurons_get_recurrent_current"
| "get_recurrent_current LinearNeurons = BaseNeurons_get_recurrent_current"
| "get_recurrent_current ConvNeurons = BaseNeurons_get_recurrent_current"
| "get_recurrent_current PolyNeurons = BaseNeurons_get_recurrent_current"
| "get_recurrent_current PolyConvNeurons = BaseNeurons_get_recurrent_current"

text \<open>Calling the bound method.\<close>

fun invoke :: "bound_method \<Rightarrow> real tensor \<Rightarrow> error + real tensor" where
  "invoke (Get_recurrent_current c) spikes = get_recurrent_current c spikes"

text \<open>
  \<^verbatim>\<open>_get_method_func(self, t_len, **kwargs)\<close>. It runs inside \<^verbatim>\<open>__init__\<close> after the
  attributes it reads are set. The result is \<open>Inr None\<close> when no branch is taken.
\<close>

definition get_method_func ::
  "'a base_neurons_scheme \<Rightarrow> nat \<Rightarrow> pydict \<Rightarrow> error + strategy option" where
  "get_method_func self t_len kwargs =
     (if self_method self = METHOD_STANDARD then
        let recurrent_source =
              (if truthy (dict_get kwargs ''recurrent'' (PBool False))
               then Some (Get_recurrent_current (self_class self)) else None)
        in Inr (Some (MethodStandard t_len (self_spike_func self) (self_scale self)
                  (dict_get kwargs ''single_spike'' (PBool False))
                  (dict_get kwargs ''integrator'' (PBool False))
                  recurrent_source))
      else if self_method self = METHOD_FAST_NAIVE then
        Inr (Some (MethodFastNaive t_len (self_spike_func self) (self_scale self) (beta self)))
      else if self_method self = METHOD_FAST_OPTIMISED then
        Inl NotImplementedError
      else Inr None)"

text \<open>
  \<^verbatim>\<open>BaseNeurons.__init__\<close>, for an object of class \<open>c\<close>. The attributes are set first,
  \<^verbatim>\<open>_beta\<close> holds the values of \<^verbatim>\<open>beta_init\<close>, and the strategy is built last.
\<close>

definition BaseNeurons_init ::
  "neuron_class \<Rightarrow> string \<Rightarrow> nat \<Rightarrow> real list \<Rightarrow> bool \<Rightarrow> spike_fn \<Rightarrow> real \<Rightarrow> pydict
     \<Rightarrow> error + base_neurons" where
  "BaseNeurons_init c method t_len beta_init beta_requires_grad spike_func scale kwargs =
     (let self = \<lparr>self_class = c, self_method = method, self_t_len = t_len, self_beta_init = beta_init,
                  self_beta_requires_grad = beta_requires_grad, self_spike_func = spike_func,
                  self_scale = scale, self_beta = beta_init, self_method_func = None\<rparr>
      in case get_method_func self t_len kwargs of
           Inl e \<Rightarrow> Inl e
         | Inr m \<Rightarrow> Inr (self\<lparr>self_method_func := m\<rparr>))"


text \<open>
  Modelled from the spec: the call of a strategy object (\<^verbatim>\<open>block.nn.methods\<close> is not among
  the sources). The potential is "created fresh at the start of each forward call and
  discarded at its end (pure function of inputs plus learnable parameters)", and the
  strategy never mutates the layer's parameters: a call computes its result from the
  strategy object and the arguments, by the function \<open>f\<close>, and leaves the strategy
  object as it was.
\<close>

type_synonym strategy_fn =
  "strategy \<Rightarrow> real tensor \<Rightarrow> real list \<Rightarrow> real tensor option \<Rightarrow> pyval \<Rightarrow> error + real tensor"

definition method_call ::
  "strategy_fn \<Rightarrow> strategy \<Rightarrow> real tensor \<Rightarrow> real list \<Rightarrow> real tensor option \<Rightarrow> pyval
     \<Rightarrow> (error + real tensor) \<times> strategy" where
  "method_call f s x b v_init return_type = (f s x b v_init return_type, s)"

text \<open>
  \<^verbatim>\<open>BaseNeurons.forward\<close>, with the layer after the call as second component.
  Calling \<^verbatim>\<open>None\<close> raises \<open>TypeError\<close>.
\<close>

definition BaseNeurons_forward ::
  "strategy_fn \<Rightarrow> 'a base_neurons_scheme \<Rightarrow> real tensor \<Rightarrow> real tensor option \<Rightarrow> pyval
     \<Rightarrow> (error + real tensor) \<times> 'a base_neurons_scheme" where
  "BaseNeurons_forward f self x v_init return_type =
     (case self_method_func self of
        None \<Rightarrow> (Inl TypeError, self)
      | Some s \<Rightarrow>
          (case method_call f s x (beta self) v_init return_type of
             (r, s') \<Rightarrow> (r, self\<lparr>self_method_func := Some s'\<rparr>)))"

section \<open>The layers with a current transform\<close>

text \<open>
  Each subclass calls \<^verbatim>\<open>super().__init__\<close> first and then builds its transform. The
  modules of torch are built by library code, and their first weights are drawn at
  random: the outcome of each such constructor call (the module, or the exception it
  raised) is an argument of the constructor of the layer. \<^verbatim>\<open>init_weight\<close> belongs to the
  library class \<^verbatim>\<open>BBModel\<close>; what the layer itself computes for it is the bound
  \<^verbatim>\<open>np.sqrt(1 / n_in)\<close>, which raises for \<open>n_in = 0\<close>.
\<close>

definition sqrt_bound :: "nat \<Rightarrow> error + real" where
  "sqrt_bound n_in = (if n_in = 0 then Inl ZeroDivisionError else Inr (sqrt (1 / real n_in)))"

text \<open>
  \<^verbatim>\<open>-sc*np.sqrt(1 / n_in)\<close> of the convolutional layers: the negation of \<open>sc\<close> is evaluated
  first and raises for a value that is not a number.
\<close>

fun number_of :: "pyval \<Rightarrow> error + real" where
  "number_of (PBool b) = Inr (if b then 1 else 0)"
| "number_of (PInt i) = Inr (real_of_int i)"
| "number_of (PFloat r) = Inr r"
| "number_of _ = Inl TypeError"

definition scaled_bound :: "pyval \<Rightarrow> nat \<Rightarrow> error + real" where
  "scaled_bound sc n_in =
     (case number_of sc of
        Inl e \<Rightarrow> Inl e
      | Inr c \<Rightarrow> (case sqrt_bound n_in of Inl e \<Rightarrow> Inl e | Inr r \<Rightarrow> Inr (c * r)))"

record linear_neurons = base_neurons +
  linear_n_in :: nat
  linear_n_out :: nat
  linear_to_current :: linear

definition LinearNeurons_init ::
  "nat \<Rightarrow> nat \<Rightarrow> string \<Rightarrow> nat \<Rightarrow> real list \<Rightarrow> bool \<Rightarrow> spike_fn \<Rightarrow> real \<Rightarrow> pydict
     \<Rightarrow> error + linear \<Rightarrow> error + linear_neurons" where
  "LinearNeurons_init n_in n_out method t_len beta_init beta_requires_grad spike_func scale
       kwargs made =
     (case BaseNeurons_init LinearNeurons method t_len beta_init beta_requires_grad
             spike_func scale kwargs of
        Inl e \<Rightarrow> Inl e
      | Inr base \<Rightarrow>
          (case made of
             Inl e \<Rightarrow> Inl e
           | Inr to_current \<Rightarrow>
               (case sqrt_bound n_in of
                  Inl e \<Rightarrow> Inl e
                | Inr a \<Rightarrow>
                    Inr (base_neurons.extend base
                          (linear_neurons.fields n_in n_out to_current)))))"

record conv_neurons = base_neurons +
  conv_n_in :: nat
  conv_n_out :: nat
  conv_kernel :: nat
  conv_stride :: nat
  conv_flatten :: pyval
  conv_to_current :: transform

definition ConvNeurons_init ::
  "nat \<Rightarrow> nat \<Rightarrow> nat \<Rightarrow> nat \<Rightarrow> string \<Rightarrow> nat \<Rightarrow> real list \<Rightarrow> bool \<Rightarrow> spike_fn \<Rightarrow> real
     \<Rightarrow> pydict \<Rightarrow> error + transform \<Rightarrow> error + conv_neurons" where
  "ConvNeurons_init n_in n_out kern stride method t_len beta_init beta_requires_grad
       spike_func scale kwargs made =
     (case BaseNeurons_init ConvNeurons method t_len beta_init beta_requires_grad
             spike_func scale kwargs of
        Inl e \<Rightarrow> Inl e
      | Inr base \<Rightarrow>
          (case made of
             Inl e \<Rightarrow> Inl e
           | Inr to_current \<Rightarrow>
               (let sc = dict_get kwargs ''sc'' (PInt 1);
                    self = base_neurons.extend base
                             (conv_neurons.fields n_in n_out kern stride
                                (dict_get kwargs ''flatten'' (PBool False)) to_current)
                in if sc \<noteq> PNone then
                     (case scaled_bound sc (kern * kern * n_in) of
                        Inl e \<Rightarrow> Inl e
                      | Inr a \<Rightarrow> Inr self)
                   else Inr self)))"

record poly_neurons = base_neurons +
  poly_n_in :: nat
  poly_n_out :: nat
  poly_fc1 :: linear
  poly_fc2 :: linear

definition PolyNeurons_init ::
  "nat \<Rightarrow> nat \<Rightarrow> string \<Rightarrow> nat \<Rightarrow> real list \<Rightarrow> bool \<Rightarrow> spike_fn \<Rightarrow> real \<Rightarrow> pydict
     \<Rightarrow> error + linear \<Rightarrow> error + linear \<Rightarrow> error + poly_neurons" where
  "PolyNeurons_init n_in n_out method t_len beta_init beta_requires_grad spike_func scale
       kwargs made1 made2 =
     (case BaseNeurons_init PolyNeurons method t_len beta_init beta_requires_grad
             spike_func scale kwargs of
        Inl e \<Rightarrow> Inl e
      | Inr base \<Rightarrow>
          (case made1 of
             Inl e \<Rightarrow> Inl e
           | Inr fc1 \<Rightarrow>
               (case made2 of
                  Inl e \<Rightarrow> Inl e
                | Inr fc2 \<Rightarrow>
                    (case sqrt_bound n_in of
                       Inl e \<Rightarrow> Inl e
                     | Inr a \<Rightarrow>
                         Inr (base_neurons.extend base
                               (poly_neurons.fields n_in n_out fc1 fc2))))))"

record polyconv_neurons = base_neurons +
  polyconv_n_in :: nat
  polyconv_n_out :: nat
  polyconv_kernel :: nat
  polyconv_stride :: nat
  polyconv_flatten :: pyval
  polyconv_conv_1 :: transform
  polyconv_conv_2 :: transform

definition PolyConvNeurons_init ::
  "nat \<Rightarrow> nat \<Rightarrow> nat \<Rightarrow> nat \<Rightarrow> string \<Rightarrow> nat \<Rightarrow> real list \<Rightarrow> bool \<Rightarrow> spike_fn \<Rightarrow> real
     \<Rightarrow> pydict \<Rightarrow> error + transform \<Rightarrow> error + transform \<Rightarrow> error + polyconv_neurons" where
  "PolyConvNeurons_init n_in n_out kern stride method t_len beta_init beta_requires_grad
       spike_func scale kwargs made1 made2 =
     (case BaseNeurons_init PolyConvNeurons method t_len beta_init beta_requires_grad
             spike_func scale kwargs of
        Inl e \<Rightarrow> Inl e
      | Inr base \<Rightarrow>
          (case made1 of
             Inl e \<Rightarrow> Inl e
           | Inr conv_1 \<Rightarrow>
               (case made2 of
                  Inl e \<Rightarrow> Inl e
                | Inr conv_2 \<Rightarrow>
                    (let sc = dict_get kwargs ''sc'' (PInt 1);
                         self = base_neurons.extend base
                                  (polyconv_neurons.fields n_in n_out kern stride
                                     (dict_get kwargs ''flatten'' (PBool False)) conv_1 conv_2)
                     in if sc \<noteq> PNone then
                          (case scaled_bound sc (kern * kern * n_in) of
                             Inl e \<Rightarrow> Inl e
                           | Inr a \<Rightarrow> Inr self)
                        else Inr self))))"





text \<open>
  A statement that raises ends the call with the layer as it is; otherwise the call
  goes on with the value.
\<close>

definition raise_or ::
  "error + 'a \<Rightarrow> 's \<Rightarrow> ('a \<Rightarrow> (error + 'b) \<times> 's) \<Rightarrow> (error + 'b) \<times> 's" where
  "raise_or r self k = (case r of Inl e \<Rightarrow> (Inl e, self) | Inr a \<Rightarrow> k a)"

text \<open>\<^verbatim>\<open>LinearNeurons.forward\<close>\<close>

definition LinearNeurons_forward ::
  "strategy_fn \<Rightarrow> linear_neurons \<Rightarrow> real tensor \<Rightarrow> real tensor option \<Rightarrow> pyval
     \<Rightarrow> (error + real tensor) \<times> linear_neurons" where
  "LinearNeurons_forward f self x v_init return_type =
     raise_or (permute [0, 2, 1] x) self (\<lambda>x1.
     raise_or (linear_call (linear_to_current self) x1) self (\<lambda>current.
     raise_or (permute [0, 2, 1] current) self (\<lambda>current1.
       BaseNeurons_forward f self current1 v_init return_type)))"

text \<open>
  The part of \<^verbatim>\<open>ConvNeurons.forward\<close> and \<^verbatim>\<open>PolyConvNeurons.forward\<close> before the strategy
  runs: the time axis goes last and the axes of channel, height and width become the
  one axis of neurons.
\<close>

definition to_neuron_axis :: "'a tensor \<Rightarrow> error + 'a tensor" where
  "to_neuron_axis current =
     (case permute [0, 1, 3, 4, 2] current of
        Inl e \<Rightarrow> Inl e
      | Inr current1 \<Rightarrow> flatten 1 3 current1)"

text \<open>The part after it, for \<^verbatim>\<open>b, n, t, h, w = current.shape\<close> and the layer's \<^verbatim>\<open>_flatten\<close>.\<close>

definition from_neuron_axis ::
  "pyval \<Rightarrow> nat \<Rightarrow> nat \<Rightarrow> nat \<Rightarrow> nat \<Rightarrow> nat \<Rightarrow> 'a tensor \<Rightarrow> error + 'a tensor" where
  "from_neuron_axis flat b n t h w spikes =
     (if \<not> truthy flat then
        (case view [b, n, h, w, t] spikes of
           Inl e \<Rightarrow> Inl e
         | Inr spikes1 \<Rightarrow> permute [0, 1, 4, 2, 3] spikes1)
      else Inr spikes)"

text \<open>
  The body shared by the two convolutional \<^verbatim>\<open>forward\<close> methods, from the current on.
  Unpacking a shape that has not five axes raises \<open>ValueError\<close>.
\<close>

definition spatial_forward ::
  "strategy_fn \<Rightarrow> pyval \<Rightarrow> 'a base_neurons_scheme \<Rightarrow> real tensor \<Rightarrow> real tensor option \<Rightarrow> pyval
     \<Rightarrow> (error + real tensor) \<times> 'a base_neurons_scheme" where
  "spatial_forward f flat self current v_init return_type =
     (case shape current of
        [b, n, t, h, w] \<Rightarrow>
          raise_or (to_neuron_axis current) self (\<lambda>current1.
            (case BaseNeurons_forward f self current1 v_init return_type of
               (r, self') \<Rightarrow>
                 raise_or r self' (\<lambda>spikes. (from_neuron_axis flat b n t h w spikes, self'))))
      | _ \<Rightarrow> (Inl ValueError, self))"

text \<open>\<^verbatim>\<open>ConvNeurons.forward\<close>\<close>

definition ConvNeurons_forward ::
  "strategy_fn \<Rightarrow> conv_neurons \<Rightarrow> real tensor \<Rightarrow> real tensor option \<Rightarrow> pyval
     \<Rightarrow> (error + real tensor) \<times> conv_neurons" where
  "ConvNeurons_forward f self x v_init return_type =
     raise_or (conv_to_current self x) self (\<lambda>current.
       spatial_forward f (conv_flatten self) self current v_init return_type)"

text \<open>\<^verbatim>\<open>PolyNeurons._to_current\<close>: \<^verbatim>\<open>(self.fc2(x)+1) * self.fc1(x)\<close>\<close>

definition PolyNeurons_to_current :: "poly_neurons \<Rightarrow> real tensor \<Rightarrow> error + real tensor" where
  "PolyNeurons_to_current self x =
     (case linear_call (poly_fc2 self) x of
        Inl e \<Rightarrow> Inl e
      | Inr y2 \<Rightarrow>
          (case linear_call (poly_fc1 self) x of
             Inl e \<Rightarrow> Inl e
           | Inr y1 \<Rightarrow> tmul (add_scalar 1 y2) y1))"

text \<open>\<^verbatim>\<open>PolyNeurons.forward\<close>\<close>

definition PolyNeurons_forward ::
  "strategy_fn \<Rightarrow> poly_neurons \<Rightarrow> real tensor \<Rightarrow> real tensor option \<Rightarrow> pyval
     \<Rightarrow> (error + real tensor) \<times> poly_neurons" where
  "PolyNeurons_forward f self x v_init return_type =
     raise_or (permute [0, 2, 1] x) self (\<lambda>x1.
     raise_or (PolyNeurons_to_current self x1) self (\<lambda>current.
     raise_or (permute [0, 2, 1] current) self (\<lambda>current1.
       BaseNeurons_forward f self current1 v_init return_type)))"

text \<open>
  The attribute \<^verbatim>\<open>_to_current\<close> of \<open>PolyConvNeurons\<close>:
  \<^verbatim>\<open>lambda x: self.conv_1(x) * (1 + self.conv_2(x))\<close>
\<close>

definition PolyConvNeurons_to_current ::
  "polyconv_neurons \<Rightarrow> real tensor \<Rightarrow> error + real tensor" where
  "PolyConvNeurons_to_current self x =
     (case polyconv_conv_1 self x of
        Inl e \<Rightarrow> Inl e
      | Inr y1 \<Rightarrow>
          (case polyconv_conv_2 self x of
             Inl e \<Rightarrow> Inl e
           | Inr y2 \<Rightarrow> tmul y1 (add_scalar 1 y2)))"

text \<open>\<^verbatim>\<open>PolyConvNeurons.forward\<close>\<close>

definition PolyConvNeurons_forward ::
  "strategy_fn \<Rightarrow> polyconv_neurons \<Rightarrow> real tensor \<Rightarrow> real tensor option \<Rightarrow> pyval
     \<Rightarrow> (error + real tensor) \<times> polyconv_neurons" where
  "PolyConvNeurons_forward f self x v_init return_type =
     raise_or (PolyConvNeurons_to_current self x) self (\<lambda>current.
       spatial_forward f (polyconv_flatten self) self current v_init return_type)"

section \<open>Example values\<close>

definition example_spike_func :: spike_fn where
  "example_spike_func = Spike_fn ''FastSigmoid.apply'' ''function''"

definition example_kwargs :: pydict where
  "example_kwargs = [''recurrent'' \<mapsto> PBool True]"

text \<open>A layer of class \<open>c\<close> made with the standard method and the recurrent flag set.\<close>

definition example_standard :: "neuron_class \<Rightarrow> base_neurons" where
  "example_standard c =
     \<lparr>self_class = c, self_method = ''standard'', self_t_len = 5,
      self_beta_init = [9/10], self_beta_requires_grad = False,
      self_spike_func = example_spike_func, self_scale = 10, self_beta = [9/10],
      self_method_func = Some (MethodStandard 5 example_spike_func 10 (PBool False)
         (PBool False) (Some (Get_recurrent_current c)))\<rparr>"

text \<open>A layer made with the fast method, with leak values below, inside and above [0, 1].\<close>

definition example_fast :: base_neurons where
  "example_fast =
     \<lparr>self_class = BaseNeurons, self_method = ''fast_naive'', self_t_len = 5,
      self_beta_init = [-3/10, 1/2, 17/10], self_beta_requires_grad = True,
      self_spike_func = example_spike_func, self_scale = 100,
      self_beta = [-3/10, 1/2, 17/10],
      self_method_func = Some (MethodFastNaive 5 example_spike_func 100 [0, 1/2, 1])\<rparr>"

text \<open>A strategy function that gives the current back.\<close>

definition example_strategy :: strategy_fn where
  "example_strategy s x b v_init return_type = Inr x"

text \<open>A layer made with the fast method and the recurrent flag set.\<close>

definition example_fast_recurrent :: base_neurons where
  "example_fast_recurrent =
     \<lparr>self_class = BaseNeurons, self_method = ''fast_naive'', self_t_len = 5,
      self_beta_init = [9/10], self_beta_requires_grad = False,
      self_spike_func = example_spike_func, self_scale = 10, self_beta = [9/10],
      self_method_func = Some (MethodFastNaive 5 example_spike_func 10 [9/10])\<rparr>"

text \<open>
  \<open>X\<close>, with the axes batch, channel, time, height and width, and \<open>F\<close>, with the axes
  batch, neuron and time, hold the same entries: the entry of \<open>X\<close> at \<open>[b, c, t, i, j]\<close>
  is the entry of \<open>F\<close> at batch \<open>b\<close>, neuron \<open>c * H * W + i * W + j\<close> and time \<open>t\<close>.
\<close>

definition neuron_layout ::
  "nat \<Rightarrow> nat \<Rightarrow> nat \<Rightarrow> nat \<Rightarrow> nat \<Rightarrow> 'a tensor \<Rightarrow> 'a tensor \<Rightarrow> bool" where
  "neuron_layout B N T H W X F =
     (\<forall>b \<in> {..<B}. \<forall>c \<in> {..<N}. \<forall>t \<in> {..<T}. \<forall>i \<in> {..<H}. \<forall>j \<in> {..<W}.
        entry X [b, c, t, i, j] = entry F [b, c * H * W + i * W + j, t])"

text \<open>
  Convolutional layers whose transforms stand for the library modules: the first
  gives its input back, the second of the polynomial layer gives zeros.
\<close>

definition example_conv :: conv_neurons where
  "example_conv = base_neurons.extend (example_standard ConvNeurons)
     (conv_neurons.fields 1 1 1 1 (PBool False) (\<lambda>x. Inr x))"

definition example_polyconv :: polyconv_neurons where
  "example_polyconv = base_neurons.extend (example_standard PolyConvNeurons)
     (polyconv_neurons.fields 1 1 1 1 (PBool False) (\<lambda>x. Inr x)
        (\<lambda>x. Inr (tabulate (shape x) (\<lambda>idx. 0))))"

definition example_current :: "real tensor" where
  "example_current = \<lparr>shape = [1, 1, 2, 1, 2], data = [1, 2, 3, 4]\<rparr>"

text \<open>A polynomial layer with two inputs and one output, and an input of one time step.\<close>

definition example_poly :: poly_neurons where
  "example_poly = base_neurons.extend (example_standard PolyNeurons)
     (poly_neurons.fields 2 1
        \<lparr>in_features = 2, out_features = 1,
         weight = \<lparr>shape = [1, 2], data = [1, 2]\<rparr>, bias = \<lparr>shape = [1], data = [3]\<rparr>\<rparr>
        \<lparr>in_features = 2, out_features = 1,
         weight = \<lparr>shape = [1, 2], data = [1, -1]\<rparr>, bias = \<lparr>shape = [1], data = [0]\<rparr>\<rparr>)"

definition example_input :: "real tensor" where
  "example_input = \<lparr>shape = [1, 2, 1], data = [5, 7]\<rparr>"

text \<open>A strategy function that gives back the leak it was called with.\<close>

definition example_leak_probe :: strategy_fn where
  "example_leak_probe s x b v_init return_type = Inr \<lparr>shape = [length b], data = b\<rparr>"

text \<open>A layer made with a method name that is none of the three.\<close>

definition example_unknown :: base_neurons where
  "example_unknown =
     \<lparr>self_class = BaseNeurons, self_method = ''foo'', self_t_len = 5,
      self_beta_init = [9/10], self_beta_requires_grad = False,
      self_spike_func = example_spike_func, self_scale = 100, self_beta = [9/10],
      self_method_func = None\<rparr>"

text \<open>A linear layer with two inputs and one output.\<close>

definition example_linear :: linear_neurons where
  "example_linear = base_neurons.extend (example_standard LinearNeurons)
     (linear_neurons.fields 2 1 (poly_fc1 example_poly))"

section \<open>Indexing\<close>

lemma concat_blocks_nth:
  "\<forall>xs \<in> set xss. length xs = n \<Longrightarrow> i < length xss \<Longrightarrow> r < n
     \<Longrightarrow> concat xss ! (i * n + r) = xss ! i ! r"
proof (induction xss arbitrary: i)
  case Nil
  then show ?case by simp
next
  case (Cons a xss)
  show ?case
  proof (cases i)
    case 0
    with Cons.prems show ?thesis by (simp add: nth_append)
  next
    case (Suc j)
    with Cons.prems have "concat xss ! (j * n + r) = xss ! j ! r"
      by (intro Cons.IH) auto
    moreover have "length a = n" using Cons.prems by simp
    ultimately show ?thesis using Suc by (simp add: nth_append)
  qed
qed

lemma length_concat_blocks:
  "\<forall>xs \<in> set xss. length xs = n \<Longrightarrow> length (concat xss) = length xss * n"
  by (induction xss) auto

lemma length_indices: "length (indices sh) = numel sh"
proof (induction sh)
  case Nil
  then show ?case by (simp add: numel_def)
next
  case (Cons d ds)
  have "length (indices (d # ds)) = length (map (\<lambda>i. map ((#) i) (indices ds)) [0..<d]) * numel ds"
    unfolding indices.simps by (rule length_concat_blocks) (auto simp: Cons.IH)
  then show ?case by (simp add: numel_def)
qed

lemma ravel_less: "in_shape idx sh \<Longrightarrow> ravel sh idx < numel sh"
proof (induction sh arbitrary: idx)
  case Nil
  then show ?case by (simp add: in_shape_def numel_def)
next
  case (Cons d ds)
  then obtain i js where idx: "idx = i # js" and i: "i < d" and js: "in_shape js ds"
    by (auto simp: in_shape_def list_all2_Cons2)
  have r: "ravel ds js < numel ds" using Cons.IH js by simp
  have "i * numel ds + ravel ds js < Suc i * numel ds" using r by simp
  also have "\<dots> \<le> d * numel ds" using i by (intro mult_le_mono1) simp
  finally show ?case using idx by (simp add: numel_def)
qed

lemma indices_ravel: "in_shape idx sh \<Longrightarrow> indices sh ! ravel sh idx = idx"
proof (induction sh arbitrary: idx)
  case Nil
  then show ?case by (simp add: in_shape_def)
next
  case (Cons d ds)
  then obtain i js where idx: "idx = i # js" and i: "i < d" and js: "in_shape js ds"
    by (auto simp: in_shape_def list_all2_Cons2)
  have r: "ravel ds js < numel ds" using js by (rule ravel_less)
  have "concat (map (\<lambda>i. map ((#) i) (indices ds)) [0..<d]) ! (i * numel ds + ravel ds js)
          = map (\<lambda>i. map ((#) i) (indices ds)) [0..<d] ! i ! ravel ds js"
    using i r by (intro concat_blocks_nth) (auto simp: length_indices)
  also have "\<dots> = i # indices ds ! ravel ds js"
    using i r by (simp add: length_indices)
  also have "\<dots> = i # js" using Cons.IH js by simp
  finally show ?case using idx by simp
qed

lemma entry_tabulate: "in_shape idx sh \<Longrightarrow> entry (tabulate sh g) idx = g idx"
  by (simp add: entry_def tabulate_def ravel_less length_indices indices_ravel)

lemma wf_tabulate: "wf_tensor (tabulate sh g)"
  by (simp add: wf_tensor_def tabulate_def length_indices)

lemma shape_tabulate: "shape (tabulate sh g) = sh"
  by (simp add: tabulate_def)

lemma ravel_indices: "k < numel sh \<Longrightarrow> ravel sh (indices sh ! k) = k \<and> in_shape (indices sh ! k) sh"
proof (induction sh arbitrary: k)
  case Nil
  then show ?case by (simp add: numel_def in_shape_def)
next
  case (Cons d ds)
  define n where "n = numel ds"
  have k: "k < d * n" using Cons.prems by (simp add: numel_def n_def)
  then have npos: "0 < n" by (cases n) auto
  have i: "k div n < d" using k npos by (simp add: less_mult_imp_div_less mult.commute)
  have r: "k mod n < n" using npos by simp
  have "concat (map (\<lambda>i. map ((#) i) (indices ds)) [0..<d]) ! (k div n * n + k mod n)
          = map (\<lambda>i. map ((#) i) (indices ds)) [0..<d] ! (k div n) ! (k mod n)"
    using i r by (intro concat_blocks_nth) (auto simp: length_indices n_def)
  then have nth: "indices (d # ds) ! k = (k div n) # indices ds ! (k mod n)"
    using i r by (simp add: length_indices n_def)
  have IH: "ravel ds (indices ds ! (k mod n)) = k mod n \<and> in_shape (indices ds ! (k mod n)) ds"
    using Cons.IH r by (simp add: n_def)
  show ?case
    unfolding nth using IH i by (simp add: n_def [symmetric] in_shape_def)
qed

lemma tensor_eqI:
  assumes "wf_tensor A" "wf_tensor B" "shape A = shape B"
    and "\<And>idx. in_shape idx (shape A) \<Longrightarrow> entry A idx = entry B idx"
  shows "A = (B :: 'a tensor)"
proof -
  have len: "length (data A) = length (data B)"
    using assms(1-3) by (simp add: wf_tensor_def)
  have "data A ! k = data B ! k" if "k < length (data A)" for k
  proof -
    have k: "k < numel (shape A)" using that assms(1) by (simp add: wf_tensor_def)
    have "entry A (indices (shape A) ! k) = entry B (indices (shape A) ! k)"
      using ravel_indices [OF k] assms(4) by simp
    then show ?thesis
      using ravel_indices [OF k] assms(3) by (simp add: entry_def)
  qed
  then have "data A = data B" using len by (intro nth_equalityI) auto
  then show ?thesis using assms(3) by simp
qed


section \<open>The neuron axis of the convolutional layers\<close>

lemma in_shape5:
  "in_shape [a, b, c, d, e] [A, B, C, D, E] = (a < A \<and> b < B \<and> c < C \<and> d < D \<and> e < E)"
  by (simp add: in_shape_def)

lemma in_shape3:
  "in_shape [a, b, c] [A, B, C] = (a < A \<and> b < B \<and> c < C)"
  by (simp add: in_shape_def)

lemma source_index_to: "source_index [0, 1, 3, 4, 2] [b, c, i, j, t] = [b, c, t, i, j]"
  by (simp add: source_index_def upt_conv_Cons)

lemma source_index_from: "source_index [0, 1, 4, 2, 3] [b, c, t, i, j] = [b, c, i, j, t]"
  by (simp add: source_index_def upt_conv_Cons)

lemma permute_to:
  assumes "shape X = [B, N, T, H, W]"
  shows "permute [0, 1, 3, 4, 2] X
           = Inr (tabulate [B, N, H, W, T] (\<lambda>idx. entry X (source_index [0, 1, 3, 4, 2] idx)))"
  using assms by (simp add: permute_def)

lemma permute_from:
  assumes "shape X = [B, N, H, W, T]"
  shows "permute [0, 1, 4, 2, 3] X
           = Inr (tabulate [B, N, T, H, W] (\<lambda>idx. entry X (source_index [0, 1, 4, 2, 3] idx)))"
  using assms by (simp add: permute_def)

lemma ravel_neuron_axis:
  "ravel [B, N * H * W, T] [b, c * H * W + i * W + j, t] = ravel [B, N, H, W, T] [b, c, i, j, t]"
  by (simp add: numel_def algebra_simps)

lemma to_neuron_axis_eq:
  assumes "shape X = [B, N, T, H, W]"
  shows "to_neuron_axis X
           = Inr \<lparr>shape = [B, N * H * W, T],
                  data = map (\<lambda>idx. entry X (source_index [0, 1, 3, 4, 2] idx))
                           (indices [B, N, H, W, T])\<rparr>"
  unfolding to_neuron_axis_def permute_to [OF assms]
  by (simp add: flatten_def tabulate_def numel_def mult.assoc del: indices.simps)

lemma to_neuron_axis_entry:
  assumes "to_neuron_axis X = Inr F" "shape X = [B, N, T, H, W]"
    and "b < B" "c < N" "t < T" "i < H" "j < W"
  shows "entry F [b, c * H * W + i * W + j, t] = entry X [b, c, t, i, j]"
proof -
  have F: "F = \<lparr>shape = [B, N * H * W, T],
                  data = map (\<lambda>idx. entry X (source_index [0, 1, 3, 4, 2] idx))
                           (indices [B, N, H, W, T])\<rparr>"
    using assms(1) to_neuron_axis_eq [OF assms(2)] by simp
  have ins: "in_shape [b, c, i, j, t] [B, N, H, W, T]"
    using assms by (simp add: in_shape5)
  have "entry F [b, c * H * W + i * W + j, t]
          = entry (tabulate [B, N, H, W, T] (\<lambda>idx. entry X (source_index [0, 1, 3, 4, 2] idx)))
              [b, c, i, j, t]"
    unfolding F entry_def tabulate_def
    by (simp only: tensor.simps ravel_neuron_axis)
  also have "\<dots> = entry X [b, c, t, i, j]"
    using ins by (simp add: entry_tabulate source_index_to del: One_nat_def)
  finally show ?thesis .
qed

lemma from_neuron_axis_eq:
  assumes "\<not> truthy flat" "wf_tensor S" "shape S = [B, N * H * W, T]"
  shows "from_neuron_axis flat B N T H W S
           = Inr (tabulate [B, N, T, H, W]
                    (\<lambda>idx. entry \<lparr>shape = [B, N, H, W, T], data = data S\<rparr>
                              (source_index [0, 1, 4, 2, 3] idx)))"
proof -
  have "numel [B, N, H, W, T] = length (data S)"
    using assms by (simp add: wf_tensor_def numel_def mult.assoc)
  then have "view [B, N, H, W, T] S = Inr \<lparr>shape = [B, N, H, W, T], data = data S\<rparr>"
    by (simp add: view_def)
  moreover have "permute [0, 1, 4, 2, 3] \<lparr>shape = [B, N, H, W, T], data = data S\<rparr>
           = Inr (tabulate [B, N, T, H, W]
                    (\<lambda>idx. entry \<lparr>shape = [B, N, H, W, T], data = data S\<rparr>
                              (source_index [0, 1, 4, 2, 3] idx)))"
    by (rule permute_from) simp
  ultimately show ?thesis
    unfolding from_neuron_axis_def using assms(1) by (simp del: One_nat_def)
qed

lemma from_neuron_axis_entry:
  assumes "from_neuron_axis flat B N T H W S = Inr R"
    and "\<not> truthy flat" "wf_tensor S" "shape S = [B, N * H * W, T]"
    and "b < B" "c < N" "t < T" "i < H" "j < W"
  shows "entry R [b, c, t, i, j] = entry S [b, c * H * W + i * W + j, t]"
proof -
  have R: "R = tabulate [B, N, T, H, W]
                    (\<lambda>idx. entry \<lparr>shape = [B, N, H, W, T], data = data S\<rparr>
                              (source_index [0, 1, 4, 2, 3] idx))"
    using assms(1) from_neuron_axis_eq [OF assms(2-4)] by simp
  have ins: "in_shape [b, c, t, i, j] [B, N, T, H, W]"
    using assms by (simp add: in_shape5)
  have "entry R [b, c, t, i, j] = entry \<lparr>shape = [B, N, H, W, T], data = data S\<rparr> [b, c, i, j, t]"
    unfolding R using ins by (simp add: entry_tabulate source_index_from del: One_nat_def)
  also have "\<dots> = entry S [b, c * H * W + i * W + j, t]"
    unfolding entry_def using assms(4)
    by (simp only: tensor.simps ravel_neuron_axis)
  finally show ?thesis .
qed

lemma in_shape5_cases:
  assumes "in_shape idx [B, N, T, H, W]"
  obtains b c t i j where "idx = [b, c, t, i, j]" "b < B" "c < N" "t < T" "i < H" "j < W"
  using assms by (auto simp: in_shape_def list_all2_Cons2)

lemma to_neuron_axis_wf:
  assumes "to_neuron_axis X = Inr F" "shape X = [B, N, T, H, W]"
  shows "wf_tensor F \<and> shape F = [B, N * H * W, T]"
proof -
  have F: "F = \<lparr>shape = [B, N * H * W, T],
                  data = map (\<lambda>idx. entry X (source_index [0, 1, 3, 4, 2] idx))
                           (indices [B, N, H, W, T])\<rparr>"
    using assms(1) to_neuron_axis_eq [OF assms(2)] by simp
  show ?thesis
    unfolding F by (simp add: wf_tensor_def length_indices numel_def mult.assoc del: indices.simps)
qed

lemma from_neuron_axis_shape:
  assumes "from_neuron_axis flat B N T H W S = Inr R"
    and "\<not> truthy flat" "wf_tensor S" "shape S = [B, N * H * W, T]"
  shows "wf_tensor R \<and> shape R = [B, N, T, H, W]"
  using assms(1) from_neuron_axis_eq [OF assms(2-4)]
  by (auto simp: wf_tabulate shape_tabulate)

lemma neuron_axis_roundtrip:
  assumes "to_neuron_axis X = Inr F" "wf_tensor X" "shape X = [B, N, T, H, W]" "\<not> truthy flat"
  shows "from_neuron_axis flat B N T H W F = Inr X"
proof -
  have F: "wf_tensor F" "shape F = [B, N * H * W, T]"
    using to_neuron_axis_wf [OF assms(1,3)] by simp_all
  obtain R where R: "from_neuron_axis flat B N T H W F = Inr R"
    using from_neuron_axis_eq [OF assms(4) F] by simp
  have Rs: "wf_tensor R" "shape R = [B, N, T, H, W]"
    using from_neuron_axis_shape [OF R assms(4) F] by simp_all
  have "R = X"
  proof (rule tensor_eqI)
    show "wf_tensor R" "wf_tensor X" by (fact Rs(1), fact assms(2))
    show "shape R = shape X" using Rs(2) assms(3) by simp
    fix idx assume "in_shape idx (shape R)"
    then have "in_shape idx [B, N, T, H, W]" using Rs(2) by simp
    then obtain b c t i j where idx: "idx = [b, c, t, i, j]"
      and lt: "b < B" "c < N" "t < T" "i < H" "j < W"
      by (rule in_shape5_cases)
    have "entry R [b, c, t, i, j] = entry F [b, c * H * W + i * W + j, t]"
      using from_neuron_axis_entry [OF R assms(4) F lt] .
    also have "\<dots> = entry X [b, c, t, i, j]"
      using to_neuron_axis_entry [OF assms(1,3) lt] .
    finally show "entry R idx = entry X idx" using idx by simp
  qed
  then show ?thesis using R by simp
qed

section \<open>Construction\<close>

lemma BaseNeurons_init_fast_optimised:
  "BaseNeurons_init c ''fast_optimised'' t_len beta_init g sf sc kwargs = Inl NotImplementedError"
  by (simp add: BaseNeurons_init_def get_method_func_def METHOD_STANDARD_def
        METHOD_FAST_NAIVE_def METHOD_FAST_OPTIMISED_def)

lemma BaseNeurons_init_standard:
  "BaseNeurons_init c ''standard'' t_len beta_init g sf sc kwargs
     = Inr \<lparr>self_class = c, self_method = ''standard'', self_t_len = t_len,
            self_beta_init = beta_init, self_beta_requires_grad = g, self_spike_func = sf,
            self_scale = sc, self_beta = beta_init,
            self_method_func = Some (MethodStandard t_len sf sc
               (dict_get kwargs ''single_spike'' (PBool False))
               (dict_get kwargs ''integrator'' (PBool False))
               (if truthy (dict_get kwargs ''recurrent'' (PBool False))
                then Some (Get_recurrent_current c) else None))\<rparr>"
  by (simp add: BaseNeurons_init_def get_method_func_def METHOD_STANDARD_def)

lemma BaseNeurons_init_fast_naive:
  "BaseNeurons_init c ''fast_naive'' t_len beta_init g sf sc kwargs
     = Inr \<lparr>self_class = c, self_method = ''fast_naive'', self_t_len = t_len,
            self_beta_init = beta_init, self_beta_requires_grad = g, self_spike_func = sf,
            self_scale = sc, self_beta = beta_init,
            self_method_func = Some (MethodFastNaive t_len sf sc (clamp 0 1 beta_init))\<rparr>"
  by (simp add: BaseNeurons_init_def get_method_func_def METHOD_STANDARD_def
        METHOD_FAST_NAIVE_def beta_def)

lemma extend_method_func: "self_method_func (base_neurons.extend base ext) = self_method_func base"
  by (simp add: base_neurons.defs)

lemma example_standard_init:
  "BaseNeurons_init c ''standard'' 5 [9/10] False example_spike_func 10 example_kwargs
     = Inr (example_standard c)"
  by (simp add: BaseNeurons_init_standard example_standard_def example_kwargs_def dict_get_def)

lemma example_fast_init:
  "BaseNeurons_init BaseNeurons ''fast_naive'' 5 [-3/10, 1/2, 17/10] True example_spike_func 100
       Map.empty
     = Inr example_fast"
  by (simp add: BaseNeurons_init_fast_naive example_fast_def clamp_def)

text \<open>
  C2. With the method "fast_optimised" the constructor of every layer class raises
  \<open>NotImplementedError\<close>: no layer object comes out, so there is nothing to call
  \<open>forward\<close> on.
\<close>

theorem fast_optimised_raises_at_construction:
  "BaseNeurons_init c ''fast_optimised'' t_len beta_init g sf sc kwargs = Inl NotImplementedError
   \<and> LinearNeurons_init n_in n_out ''fast_optimised'' t_len beta_init g sf sc kwargs made_l
       = Inl NotImplementedError
   \<and> ConvNeurons_init n_in n_out kern stride ''fast_optimised'' t_len beta_init g sf sc kwargs made_c
       = Inl NotImplementedError
   \<and> PolyNeurons_init n_in n_out ''fast_optimised'' t_len beta_init g sf sc kwargs made_l made_l2
       = Inl NotImplementedError
   \<and> PolyConvNeurons_init n_in n_out kern stride ''fast_optimised'' t_len beta_init g sf sc kwargs
         made_c made_c2
       = Inl NotImplementedError"
  by (simp add: BaseNeurons_init_fast_optimised LinearNeurons_init_def ConvNeurons_init_def
        PolyNeurons_init_def PolyConvNeurons_init_def)

text \<open>
  C6. With the method "standard" the recurrent source given to the strategy is the
  layer's bound method \<open>get_recurrent_current\<close> exactly when the keyword \<open>recurrent\<close>
  is true, and \<open>None\<close> exactly when it is not; without the keyword it is \<open>None\<close>.
\<close>

theorem recurrent_source_iff_flag:
  assumes "BaseNeurons_init c ''standard'' t_len beta_init g sf sc kwargs = Inr self"
  shows "\<exists>single_spike integrator recurrent_source.
           self_method_func self
             = Some (MethodStandard t_len sf sc single_spike integrator recurrent_source)
         \<and> (recurrent_source = Some (Get_recurrent_current c)
              \<longleftrightarrow> truthy (dict_get kwargs ''recurrent'' (PBool False)))
         \<and> (recurrent_source = None
              \<longleftrightarrow> \<not> truthy (dict_get kwargs ''recurrent'' (PBool False)))
         \<and> (kwargs ''recurrent'' = None \<longrightarrow> recurrent_source = None)"
  using assms unfolding BaseNeurons_init_standard
  by (auto simp: dict_get_def)

theorem recurrent_source_iff_flag_witness:
  "BaseNeurons_init LinearNeurons ''standard'' 5 [9/10] False example_spike_func 10 example_kwargs
     = Inr (example_standard LinearNeurons)
   \<and> truthy (dict_get example_kwargs ''recurrent'' (PBool False))
   \<and> self_method_func (example_standard LinearNeurons)
       = Some (MethodStandard 5 example_spike_func 10 (PBool False) (PBool False)
                 (Some (Get_recurrent_current LinearNeurons)))
   \<and> BaseNeurons_init LinearNeurons ''standard'' 5 [9/10] False example_spike_func 10 Map.empty
     = Inr ((example_standard LinearNeurons)
              \<lparr>self_method_func := Some (MethodStandard 5 example_spike_func 10 (PBool False)
                                          (PBool False) None)\<rparr>)
   \<and> (Map.empty :: pydict) ''recurrent'' = None"
proof -
  let ?off = "(example_standard LinearNeurons)
              \<lparr>self_method_func := Some (MethodStandard 5 example_spike_func 10 (PBool False)
                                          (PBool False) None)\<rparr>"
  have on: "BaseNeurons_init LinearNeurons ''standard'' 5 [9/10] False example_spike_func 10
              example_kwargs = Inr (example_standard LinearNeurons)"
    by (rule example_standard_init)
  have off: "BaseNeurons_init LinearNeurons ''standard'' 5 [9/10] False example_spike_func 10
               Map.empty = Inr ?off"
    by (simp add: BaseNeurons_init_standard example_standard_def dict_get_def)
  have t: "truthy (dict_get example_kwargs ''recurrent'' (PBool False))"
    by (simp add: example_kwargs_def dict_get_def)
  have "self_method_func (example_standard LinearNeurons)
       = Some (MethodStandard 5 example_spike_func 10 (PBool False) (PBool False)
                 (Some (Get_recurrent_current LinearNeurons)))"
    using recurrent_source_iff_flag [OF on] t by (auto simp: example_standard_def)
  moreover have "self_method_func ?off
       = Some (MethodStandard 5 example_spike_func 10 (PBool False) (PBool False) None)"
    using recurrent_source_iff_flag [OF off] by simp
  ultimately show ?thesis using on off t by simp
qed

section \<open>The leak coefficient\<close>

lemma clamp_nth:
  "i < length t \<Longrightarrow> clamp lo hi t ! i = min (max (t ! i) lo) hi"
  by (simp add: clamp_def)

lemma forward_keeps_beta:
  "self_beta (snd (BaseNeurons_forward f self x v rt)) = self_beta self"
  by (simp add: BaseNeurons_forward_def method_call_def split: option.splits)

text \<open>
  C1. The coefficient a forward call uses is the stored parameter clamped to [0, 1],
  entry by entry: a stored entry below 0 is used as 0, one above 1 as 1, one inside
  the interval as it is. The call hands exactly this clamped value to the strategy
  and the stored parameter is the same after the call.
\<close>

theorem beta_clamped_on_read:
  fixes self :: "'a base_neurons_scheme"
  shows "length (beta self) = length (self_beta self)
     \<and> (\<forall>i < length (self_beta self).
          beta self ! i = min (max (self_beta self ! i) 0) 1
        \<and> (self_beta self ! i < 0 \<longrightarrow> beta self ! i = 0)
        \<and> (1 < self_beta self ! i \<longrightarrow> beta self ! i = 1)
        \<and> (0 \<le> self_beta self ! i \<and> self_beta self ! i \<le> 1 \<longrightarrow> beta self ! i = self_beta self ! i))
     \<and> (\<forall>s. self_method_func self = Some s \<longrightarrow>
          fst (BaseNeurons_forward f self x v rt) = f s x (clamp 0 1 (self_beta self)) v rt)
     \<and> self_beta (snd (BaseNeurons_forward f self x v rt)) = self_beta self"
proof -
  have len: "length (beta self) = length (self_beta self)"
    by (simp add: beta_def clamp_def)
  have entries: "\<forall>i < length (self_beta self).
          beta self ! i = min (max (self_beta self ! i) 0) 1
        \<and> (self_beta self ! i < 0 \<longrightarrow> beta self ! i = 0)
        \<and> (1 < self_beta self ! i \<longrightarrow> beta self ! i = 1)
        \<and> (0 \<le> self_beta self ! i \<and> self_beta self ! i \<le> 1 \<longrightarrow> beta self ! i = self_beta self ! i)"
    by (auto simp: beta_def clamp_nth)
  have call: "\<forall>s. self_method_func self = Some s \<longrightarrow>
          fst (BaseNeurons_forward f self x v rt) = f s x (clamp 0 1 (self_beta self)) v rt"
    by (simp add: BaseNeurons_forward_def method_call_def beta_def)
  show ?thesis
    using len entries call forward_keeps_beta by blast
qed

theorem beta_clamped_on_read_witness:
  "beta example_fast = [0, 1/2, 1]
   \<and> fst (BaseNeurons_forward example_strategy example_fast \<lparr>shape = [1, 3, 1], data = [1, 2, 3]\<rparr>
            None (PStr ''spikes''))
       = example_strategy (MethodFastNaive 5 example_spike_func 100 [0, 1/2, 1])
           \<lparr>shape = [1, 3, 1], data = [1, 2, 3]\<rparr> [0, 1/2, 1] None (PStr ''spikes'')
   \<and> self_beta (snd (BaseNeurons_forward example_strategy example_fast
                       \<lparr>shape = [1, 3, 1], data = [1, 2, 3]\<rparr> None (PStr ''spikes'')))
       = [-3/10, 1/2, 17/10]"
  using beta_clamped_on_read [of example_fast example_strategy
          "\<lparr>shape = [1, 3, 1], data = [1, 2, 3]\<rparr>" None "PStr ''spikes''"]
  by (simp add: example_fast_def beta_def clamp_def)


section \<open>Forward calls\<close>

lemma forward_fixes_layer:
  "snd (BaseNeurons_forward f self x v rt) = self"
  by (simp add: BaseNeurons_forward_def method_call_def split: option.splits)

lemma raise_or_snd:
  "(\<And>a. snd (k a) = self) \<Longrightarrow> snd (raise_or r self k) = self"
  by (simp add: raise_or_def split: sum.splits)

lemma spatial_forward_fixes_layer:
  "snd (spatial_forward f flat self current v rt) = self"
proof -
  have "snd (case BaseNeurons_forward f self c1 v rt of
               (r, self') \<Rightarrow> raise_or r self' (\<lambda>spikes. (from_neuron_axis flat b n t h w spikes, self')))
          = self" for c1 b n t h w
    using forward_fixes_layer [of f self c1 v rt]
    by (cases "BaseNeurons_forward f self c1 v rt") (simp add: raise_or_def split: sum.splits)
  then show ?thesis
    by (simp add: spatial_forward_def raise_or_def split: list.splits sum.splits)
qed

lemma LinearNeurons_forward_fixes_layer:
  "snd (LinearNeurons_forward f self x v rt) = self"
  by (simp add: LinearNeurons_forward_def raise_or_snd forward_fixes_layer)

lemma PolyNeurons_forward_fixes_layer:
  "snd (PolyNeurons_forward f self x v rt) = self"
  by (simp add: PolyNeurons_forward_def raise_or_snd forward_fixes_layer)

lemma ConvNeurons_forward_fixes_layer:
  "snd (ConvNeurons_forward f self x v rt) = self"
  by (simp add: ConvNeurons_forward_def raise_or_snd spatial_forward_fixes_layer)

lemma PolyConvNeurons_forward_fixes_layer:
  "snd (PolyConvNeurons_forward f self x v rt) = self"
  by (simp add: PolyConvNeurons_forward_def raise_or_snd spatial_forward_fixes_layer)

text \<open>
  C8. A forward call leaves the layer as it was, for each of the five classes, and a
  second call on the layer after the first, with the same arguments, gives the same
  result. The call of the strategy object is the one modelled in \<open>method_call\<close>.
\<close>

theorem forward_is_stateless:
  "snd (BaseNeurons_forward f base x v rt) = base
   \<and> snd (LinearNeurons_forward f lin x v rt) = lin
   \<and> snd (ConvNeurons_forward f conv x v rt) = conv
   \<and> snd (PolyNeurons_forward f poly x v rt) = poly
   \<and> snd (PolyConvNeurons_forward f polyconv x v rt) = polyconv
   \<and> BaseNeurons_forward f (snd (BaseNeurons_forward f base x v rt)) x v rt
       = BaseNeurons_forward f base x v rt
   \<and> LinearNeurons_forward f (snd (LinearNeurons_forward f lin x v rt)) x v rt
       = LinearNeurons_forward f lin x v rt
   \<and> ConvNeurons_forward f (snd (ConvNeurons_forward f conv x v rt)) x v rt
       = ConvNeurons_forward f conv x v rt
   \<and> PolyNeurons_forward f (snd (PolyNeurons_forward f poly x v rt)) x v rt
       = PolyNeurons_forward f poly x v rt
   \<and> PolyConvNeurons_forward f (snd (PolyConvNeurons_forward f polyconv x v rt)) x v rt
       = PolyConvNeurons_forward f polyconv x v rt"
  by (simp add: forward_fixes_layer LinearNeurons_forward_fixes_layer
        ConvNeurons_forward_fixes_layer PolyNeurons_forward_fixes_layer
        PolyConvNeurons_forward_fixes_layer)

section \<open>The strategy of a layer\<close>

lemma BaseNeurons_init_method_func:
  assumes "BaseNeurons_init c method t_len beta_init g sf sc kwargs = Inr self"
  shows "method \<noteq> ''fast_optimised''"
    and "self_method_func self =
       (if method = ''standard'' then
          Some (MethodStandard t_len sf sc
                  (dict_get kwargs ''single_spike'' (PBool False))
                  (dict_get kwargs ''integrator'' (PBool False))
                  (if truthy (dict_get kwargs ''recurrent'' (PBool False))
                   then Some (Get_recurrent_current c) else None))
        else if method = ''fast_naive'' then
          Some (MethodFastNaive t_len sf sc (clamp 0 1 beta_init))
        else None)"
  using assms
  by (auto simp: BaseNeurons_init_def get_method_func_def Let_def beta_def METHOD_STANDARD_def
        METHOD_FAST_NAIVE_def METHOD_FAST_OPTIMISED_def split: if_splits)

lemma subclass_init_base:
  "LinearNeurons_init n_in n_out method t_len beta_init g sf sc kwargs made_l = Inr lin
     \<Longrightarrow> \<exists>base. BaseNeurons_init LinearNeurons method t_len beta_init g sf sc kwargs = Inr base
               \<and> self_method_func lin = self_method_func base"
  "ConvNeurons_init n_in n_out kern stride method t_len beta_init g sf sc kwargs made_c = Inr conv
     \<Longrightarrow> \<exists>base. BaseNeurons_init ConvNeurons method t_len beta_init g sf sc kwargs = Inr base
               \<and> self_method_func conv = self_method_func base"
  "PolyNeurons_init n_in n_out method t_len beta_init g sf sc kwargs made_l made_l' = Inr poly
     \<Longrightarrow> \<exists>base. BaseNeurons_init PolyNeurons method t_len beta_init g sf sc kwargs = Inr base
               \<and> self_method_func poly = self_method_func base"
  "PolyConvNeurons_init n_in n_out kern stride method t_len beta_init g sf sc kwargs made_c made_c'
       = Inr polyconv
     \<Longrightarrow> \<exists>base. BaseNeurons_init PolyConvNeurons method t_len beta_init g sf sc kwargs = Inr base
               \<and> self_method_func polyconv = self_method_func base"
  by (auto simp: LinearNeurons_init_def ConvNeurons_init_def PolyNeurons_init_def
        PolyConvNeurons_init_def Let_def extend_method_func split: sum.splits if_splits)

lemma forward_is_one_call:
  fixes layer :: "'a base_neurons_scheme"
  shows "BaseNeurons_forward f layer x v rt =
           (case self_method_func layer of
              None \<Rightarrow> (Inl TypeError, layer)
            | Some s \<Rightarrow>
                (case method_call f s x (clamp 0 1 (self_beta layer)) v rt of
                   (r, s') \<Rightarrow> (r, layer\<lparr>self_method_func := Some s'\<rparr>)))"
  unfolding BaseNeurons_forward_def beta_def by (rule refl)

lemma spatial_forward_calls:
  "(\<exists>e. spatial_forward f flat self current v rt = (Inl e, self))
     \<or> (\<exists>current1 b n t h w.
           spatial_forward f flat self current v rt
             = (case BaseNeurons_forward f self current1 v rt of
                  (r, self') \<Rightarrow>
                    raise_or r self' (\<lambda>spikes. (from_neuron_axis flat b n t h w spikes, self'))))"
proof (cases "\<exists>b n t h w. shape current = [b, n, t, h, w]")
  case True
  then obtain b n t h w where sh: "shape current = [b, n, t, h, w]" by blast
  show ?thesis
  proof (cases "to_neuron_axis current")
    case (Inl e)
    then have "spatial_forward f flat self current v rt = (Inl e, self)"
      using sh by (simp add: spatial_forward_def raise_or_def)
    then show ?thesis by blast
  next
    case (Inr current1)
    then have "spatial_forward f flat self current v rt
             = (case BaseNeurons_forward f self current1 v rt of
                  (r, self') \<Rightarrow>
                    raise_or r self' (\<lambda>spikes. (from_neuron_axis flat b n t h w spikes, self')))"
      using sh by (simp add: spatial_forward_def raise_or_def)
    then show ?thesis by blast
  qed
next
  case False
  then have "spatial_forward f flat self current v rt = (Inl ValueError, self)"
    by (auto simp: spatial_forward_def split: list.splits)
  then show ?thesis by blast
qed

lemma LinearNeurons_forward_calls:
  "(\<exists>e. LinearNeurons_forward f lin x v rt = (Inl e, lin))
     \<or> (\<exists>current. LinearNeurons_forward f lin x v rt = BaseNeurons_forward f lin current v rt)"
  by (auto simp: LinearNeurons_forward_def raise_or_def split: sum.splits)

lemma PolyNeurons_forward_calls:
  "(\<exists>e. PolyNeurons_forward f poly x v rt = (Inl e, poly))
     \<or> (\<exists>current. PolyNeurons_forward f poly x v rt = BaseNeurons_forward f poly current v rt)"
  by (auto simp: PolyNeurons_forward_def raise_or_def split: sum.splits)

lemma ConvNeurons_forward_calls:
  "(\<exists>e. ConvNeurons_forward f conv x v rt = (Inl e, conv))
     \<or> (\<exists>current b n t h w.
           ConvNeurons_forward f conv x v rt
             = (case BaseNeurons_forward f conv current v rt of
                  (r, self') \<Rightarrow>
                    raise_or r self'
                      (\<lambda>spikes. (from_neuron_axis (conv_flatten conv) b n t h w spikes, self'))))"
proof (cases "conv_to_current conv x")
  case (Inl e)
  then show ?thesis by (simp add: ConvNeurons_forward_def raise_or_def)
next
  case (Inr current)
  then have "ConvNeurons_forward f conv x v rt
               = spatial_forward f (conv_flatten conv) conv current v rt"
    by (simp add: ConvNeurons_forward_def raise_or_def)
  then show ?thesis
    using spatial_forward_calls [of f "conv_flatten conv" conv current v rt] by simp
qed

lemma PolyConvNeurons_forward_calls:
  "(\<exists>e. PolyConvNeurons_forward f polyconv x v rt = (Inl e, polyconv))
     \<or> (\<exists>current b n t h w.
           PolyConvNeurons_forward f polyconv x v rt
             = (case BaseNeurons_forward f polyconv current v rt of
                  (r, self') \<Rightarrow>
                    raise_or r self'
                      (\<lambda>spikes. (from_neuron_axis (polyconv_flatten polyconv) b n t h w spikes,
                                  self'))))"
proof (cases "PolyConvNeurons_to_current polyconv x")
  case (Inl e)
  then show ?thesis by (simp add: PolyConvNeurons_forward_def raise_or_def)
next
  case (Inr current)
  then have "PolyConvNeurons_forward f polyconv x v rt
               = spatial_forward f (polyconv_flatten polyconv) polyconv current v rt"
    by (simp add: PolyConvNeurons_forward_def raise_or_def)
  then show ?thesis
    using spatial_forward_calls [of f "polyconv_flatten polyconv" polyconv current v rt] by simp
qed

lemma example_unknown_init:
  "BaseNeurons_init BaseNeurons ''foo'' 5 [9/10] False example_spike_func 100 Map.empty
     = Inr example_unknown"
  by (simp add: BaseNeurons_init_def get_method_func_def example_unknown_def
        METHOD_STANDARD_def METHOD_FAST_NAIVE_def METHOD_FAST_OPTIMISED_def)

lemma example_subclass_init:
  "LinearNeurons_init 2 1 ''standard'' 5 [9/10] False example_spike_func 10 example_kwargs
       (Inr (poly_fc1 example_poly)) = Inr example_linear"
  "ConvNeurons_init 1 1 1 1 ''standard'' 5 [9/10] False example_spike_func 10 example_kwargs
       (Inr (\<lambda>x. Inr x)) = Inr example_conv"
  "PolyNeurons_init 2 1 ''standard'' 5 [9/10] False example_spike_func 10 example_kwargs
       (Inr (poly_fc1 example_poly)) (Inr (poly_fc2 example_poly)) = Inr example_poly"
  "PolyConvNeurons_init 1 1 1 1 ''standard'' 5 [9/10] False example_spike_func 10
       example_kwargs (Inr (\<lambda>x. Inr x)) (Inr (\<lambda>x. Inr (tabulate (shape x) (\<lambda>idx. 0))))
       = Inr example_polyconv"
proof -
  have kw: "dict_get example_kwargs ''sc'' (PInt 1) = PInt 1"
    "dict_get example_kwargs ''flatten'' (PBool False) = PBool False"
    by (simp_all add: example_kwargs_def dict_get_def)
  show "LinearNeurons_init 2 1 ''standard'' 5 [9/10] False example_spike_func 10 example_kwargs
       (Inr (poly_fc1 example_poly)) = Inr example_linear"
    by (simp add: LinearNeurons_init_def example_standard_init example_linear_def sqrt_bound_def)
  show "ConvNeurons_init 1 1 1 1 ''standard'' 5 [9/10] False example_spike_func 10 example_kwargs
       (Inr (\<lambda>x. Inr x)) = Inr example_conv"
    by (simp add: ConvNeurons_init_def example_standard_init example_conv_def sqrt_bound_def
          scaled_bound_def kw Let_def)
  show "PolyNeurons_init 2 1 ''standard'' 5 [9/10] False example_spike_func 10 example_kwargs
       (Inr (poly_fc1 example_poly)) (Inr (poly_fc2 example_poly)) = Inr example_poly"
    by (simp add: PolyNeurons_init_def example_standard_init example_poly_def sqrt_bound_def
          base_neurons.defs poly_neurons.defs)
  show "PolyConvNeurons_init 1 1 1 1 ''standard'' 5 [9/10] False example_spike_func 10
       example_kwargs (Inr (\<lambda>x. Inr x)) (Inr (\<lambda>x. Inr (tabulate (shape x) (\<lambda>idx. 0))))
       = Inr example_polyconv"
    by (simp add: PolyConvNeurons_init_def example_standard_init example_polyconv_def
          sqrt_bound_def scaled_bound_def kw Let_def)
qed

text \<open>
  C3. The specification says that with "fast_naive" the clamped leak is bound into
  the strategy at construction rather than derived again in each forward call. The
  strategy does hold the leak clamped at construction, \<open>[0, 1/2, 1]\<close>, but a forward
  call after the stored leak has become \<open>[2/5, 2/5, 2/5]\<close> derives the clamped leak
  again and calls the strategy with it. And a layer made with a method name that is
  none of the three has no strategy at all.
\<close>

theorem leak_rederived_counterexample:
  "BaseNeurons_init BaseNeurons ''fast_naive'' 5 [-3/10, 1/2, 17/10] True example_spike_func 100
       Map.empty
     = Inr example_fast
   \<and> self_method_func example_fast
       = Some (MethodFastNaive 5 example_spike_func 100 [0, 1/2, 1])
   \<and> fst (BaseNeurons_forward example_leak_probe (example_fast\<lparr>self_beta := [2/5, 2/5, 2/5]\<rparr>)
            example_input None (PStr ''spikes''))
       = Inr \<lparr>shape = [3], data = [2/5, 2/5, 2/5]\<rparr>
   \<and> [2/5, 2/5, 2/5] \<noteq> [0, 1/2, 1 :: real]
   \<and> BaseNeurons_init BaseNeurons ''foo'' 5 [9/10] False example_spike_func 100 Map.empty
     = Inr example_unknown
   \<and> self_method_func example_unknown = None"
proof -
  have "self_method_func example_fast
       = Some (MethodFastNaive 5 example_spike_func 100 [0, 1/2, 1])"
    by (simp add: example_fast_def)
  moreover
  have "fst (BaseNeurons_forward example_leak_probe (example_fast\<lparr>self_beta := [2/5, 2/5, 2/5]\<rparr>)
            example_input None (PStr ''spikes''))
       = Inr \<lparr>shape = [3], data = [2/5, 2/5, 2/5]\<rparr>"
    by (simp add: example_fast_def BaseNeurons_forward_def method_call_def beta_def clamp_def
          example_leak_probe_def)
  moreover have "self_method_func example_unknown = None"
    by (simp add: example_unknown_def)
  moreover have "[2/5, 2/5, 2/5] \<noteq> [0, 1/2, 1 :: real]"
    by simp
  ultimately show ?thesis
    using example_fast_init example_unknown_init by blast
qed

text \<open>
  C3, as the code has it. The constructor of the base class, which the constructor of
  each subclass runs first, builds the strategy once: for "standard" a
  \<open>MethodStandard\<close>, for "fast_naive" a \<open>MethodFastNaive\<close> that holds the clamped
  values of \<open>beta_init\<close>, for "fast_optimised" no layer, and for any other name a layer
  with no strategy. A forward call of the base class, also after the stored leak has
  been changed to \<open>b'\<close>, builds nothing: it raises \<open>TypeError\<close> when there is no
  strategy, and else it is one call of the strategy that the layer holds, with the
  clamped current leak as argument. A forward call of a subclass either raises before
  that or makes this call once.
\<close>

theorem strategy_built_once:
  fixes layer :: "'a base_neurons_scheme"
  assumes "BaseNeurons_init c method t_len beta_init g sf sc kwargs = Inr self"
  shows "method \<noteq> ''fast_optimised''
     \<and> self_method_func self =
         (if method = ''standard'' then
            Some (MethodStandard t_len sf sc
                    (dict_get kwargs ''single_spike'' (PBool False))
                    (dict_get kwargs ''integrator'' (PBool False))
                    (if truthy (dict_get kwargs ''recurrent'' (PBool False))
                     then Some (Get_recurrent_current c) else None))
          else if method = ''fast_naive'' then
            Some (MethodFastNaive t_len sf sc (clamp 0 1 beta_init))
          else None)
     \<and> BaseNeurons_forward f (self\<lparr>self_beta := b'\<rparr>) x v rt =
         (case self_method_func self of
            None \<Rightarrow> (Inl TypeError, self\<lparr>self_beta := b'\<rparr>)
          | Some s \<Rightarrow>
              (case method_call f s x (clamp 0 1 b') v rt of
                 (r, s') \<Rightarrow> (r, self\<lparr>self_beta := b', self_method_func := Some s'\<rparr>)))
     \<and> BaseNeurons_forward f layer x v rt =
         (case self_method_func layer of
            None \<Rightarrow> (Inl TypeError, layer)
          | Some s \<Rightarrow>
              (case method_call f s x (clamp 0 1 (self_beta layer)) v rt of
                 (r, s') \<Rightarrow> (r, layer\<lparr>self_method_func := Some s'\<rparr>)))
     \<and> (LinearNeurons_init n_in n_out method' t_len' beta_init' g' sf' sc' kwargs' made_l = Inr lin
          \<longrightarrow> (\<exists>base. BaseNeurons_init LinearNeurons method' t_len' beta_init' g' sf' sc' kwargs'
                         = Inr base
                     \<and> self_method_func lin = self_method_func base))
     \<and> (ConvNeurons_init n_in n_out kern stride method' t_len' beta_init' g' sf' sc' kwargs' made_c
            = Inr conv
          \<longrightarrow> (\<exists>base. BaseNeurons_init ConvNeurons method' t_len' beta_init' g' sf' sc' kwargs'
                         = Inr base
                     \<and> self_method_func conv = self_method_func base))
     \<and> (PolyNeurons_init n_in n_out method' t_len' beta_init' g' sf' sc' kwargs' made_l made_l'
            = Inr poly
          \<longrightarrow> (\<exists>base. BaseNeurons_init PolyNeurons method' t_len' beta_init' g' sf' sc' kwargs'
                         = Inr base
                     \<and> self_method_func poly = self_method_func base))
     \<and> (PolyConvNeurons_init n_in n_out kern stride method' t_len' beta_init' g' sf' sc' kwargs'
            made_c made_c' = Inr polyconv
          \<longrightarrow> (\<exists>base. BaseNeurons_init PolyConvNeurons method' t_len' beta_init' g' sf' sc' kwargs'
                         = Inr base
                     \<and> self_method_func polyconv = self_method_func base))
     \<and> ((\<exists>e. LinearNeurons_forward f lin0 x v rt = (Inl e, lin0))
          \<or> (\<exists>current. LinearNeurons_forward f lin0 x v rt
                          = BaseNeurons_forward f lin0 current v rt))
     \<and> ((\<exists>e. PolyNeurons_forward f poly0 x v rt = (Inl e, poly0))
          \<or> (\<exists>current. PolyNeurons_forward f poly0 x v rt
                          = BaseNeurons_forward f poly0 current v rt))
     \<and> ((\<exists>e. ConvNeurons_forward f conv0 x v rt = (Inl e, conv0))
          \<or> (\<exists>current b n t h w.
                ConvNeurons_forward f conv0 x v rt
                  = (case BaseNeurons_forward f conv0 current v rt of
                       (r, self') \<Rightarrow>
                         raise_or r self'
                           (\<lambda>spikes. (from_neuron_axis (conv_flatten conv0) b n t h w spikes,
                                       self')))))
     \<and> ((\<exists>e. PolyConvNeurons_forward f polyconv0 x v rt = (Inl e, polyconv0))
          \<or> (\<exists>current b n t h w.
                PolyConvNeurons_forward f polyconv0 x v rt
                  = (case BaseNeurons_forward f polyconv0 current v rt of
                       (r, self') \<Rightarrow>
                         raise_or r self'
                           (\<lambda>spikes. (from_neuron_axis (polyconv_flatten polyconv0) b n t h w
                                         spikes, self')))))"
proof -
  have built: "method \<noteq> ''fast_optimised''"
    "self_method_func self =
         (if method = ''standard'' then
            Some (MethodStandard t_len sf sc
                    (dict_get kwargs ''single_spike'' (PBool False))
                    (dict_get kwargs ''integrator'' (PBool False))
                    (if truthy (dict_get kwargs ''recurrent'' (PBool False))
                     then Some (Get_recurrent_current c) else None))
          else if method = ''fast_naive'' then
            Some (MethodFastNaive t_len sf sc (clamp 0 1 beta_init))
          else None)"
    using BaseNeurons_init_method_func [OF assms] by blast+
  have call: "BaseNeurons_forward f (self\<lparr>self_beta := b'\<rparr>) x v rt =
         (case self_method_func self of
            None \<Rightarrow> (Inl TypeError, self\<lparr>self_beta := b'\<rparr>)
          | Some s \<Rightarrow>
              (case method_call f s x (clamp 0 1 b') v rt of
                 (r, s') \<Rightarrow> (r, self\<lparr>self_beta := b', self_method_func := Some s'\<rparr>)))"
    by (simp add: forward_is_one_call split: option.splits)
  show ?thesis
    using built call forward_is_one_call [of f layer x v rt] subclass_init_base
      LinearNeurons_forward_calls [of f lin0 x v rt] PolyNeurons_forward_calls [of f poly0 x v rt]
      ConvNeurons_forward_calls [of f conv0 x v rt]
      PolyConvNeurons_forward_calls [of f polyconv0 x v rt]
    by (intro conjI impI) blast+
qed


theorem strategy_built_once_witness:
  "BaseNeurons_init BaseNeurons ''fast_naive'' 5 [-3/10, 1/2, 17/10] True example_spike_func 100
       Map.empty
     = Inr example_fast
   \<and> self_method_func example_fast
       = Some (MethodFastNaive 5 example_spike_func 100 (clamp 0 1 [-3/10, 1/2, 17/10]))
   \<and> BaseNeurons_forward example_leak_probe (example_fast\<lparr>self_beta := [2/5, 2/5, 2/5]\<rparr>)
         example_input None (PStr ''spikes'')
       = (case method_call example_leak_probe
                 (MethodFastNaive 5 example_spike_func 100 (clamp 0 1 [-3/10, 1/2, 17/10]))
                 example_input (clamp 0 1 [2/5, 2/5, 2/5]) None (PStr ''spikes'') of
            (r, s') \<Rightarrow>
              (r, example_fast\<lparr>self_beta := [2/5, 2/5, 2/5], self_method_func := Some s'\<rparr>))
   \<and> BaseNeurons_init BaseNeurons ''foo'' 5 [9/10] False example_spike_func 100 Map.empty
     = Inr example_unknown
   \<and> self_method_func example_unknown = None
   \<and> BaseNeurons_forward example_leak_probe (example_unknown\<lparr>self_beta := [2/5]\<rparr>)
         example_input None (PStr ''spikes'')
       = (Inl TypeError, example_unknown\<lparr>self_beta := [2/5]\<rparr>)
   \<and> LinearNeurons_init 2 1 ''standard'' 5 [9/10] False example_spike_func 10 example_kwargs
       (Inr (poly_fc1 example_poly)) = Inr example_linear
   \<and> self_method_func example_linear = self_method_func (example_standard LinearNeurons)
   \<and> ConvNeurons_init 1 1 1 1 ''standard'' 5 [9/10] False example_spike_func 10 example_kwargs
       (Inr (\<lambda>x. Inr x)) = Inr example_conv
   \<and> self_method_func example_conv = self_method_func (example_standard ConvNeurons)
   \<and> PolyNeurons_init 2 1 ''standard'' 5 [9/10] False example_spike_func 10 example_kwargs
       (Inr (poly_fc1 example_poly)) (Inr (poly_fc2 example_poly)) = Inr example_poly
   \<and> self_method_func example_poly = self_method_func (example_standard PolyNeurons)
   \<and> PolyConvNeurons_init 1 1 1 1 ''standard'' 5 [9/10] False example_spike_func 10
       example_kwargs (Inr (\<lambda>x. Inr x)) (Inr (\<lambda>x. Inr (tabulate (shape x) (\<lambda>idx. 0))))
       = Inr example_polyconv
   \<and> self_method_func example_polyconv = self_method_func (example_standard PolyConvNeurons)"
proof -
  note fast = strategy_built_once [OF example_fast_init, where f = example_leak_probe
      and b' = "[2/5, 2/5, 2/5]" and x = example_input and v = None and rt = "PStr ''spikes''"
      and lin = example_linear and conv = example_conv and poly = example_poly
      and polyconv = example_polyconv and n_in = 2 and n_out = 1 and method' = "''standard''"
      and t_len' = 5 and beta_init' = "[9/10]" and g' = False and sf' = example_spike_func
      and sc' = 10 and kwargs' = example_kwargs and made_l = "Inr (poly_fc1 example_poly)"
      and made_l' = "Inr (poly_fc2 example_poly)"]
  note unknown = strategy_built_once [OF example_unknown_init, where f = example_leak_probe
      and b' = "[2/5]" and x = example_input and v = None and rt = "PStr ''spikes''"
      and lin = example_linear and conv = example_conv and poly = example_poly
      and polyconv = example_polyconv and n_in = 1 and n_out = 1 and kern = 1 and stride = 1
      and method' = "''standard''"
      and t_len' = 5 and beta_init' = "[9/10]" and g' = False and sf' = example_spike_func
      and sc' = 10 and kwargs' = example_kwargs and made_c = "Inr (\<lambda>x. Inr x)"
      and made_c' = "Inr (\<lambda>x. Inr (tabulate (shape x) (\<lambda>idx. 0)))"]
  have a: "self_method_func example_fast
       = Some (MethodFastNaive 5 example_spike_func 100 (clamp 0 1 [-3/10, 1/2, 17/10]))"
    using fast [THEN conjunct2, THEN conjunct1] by simp
  have b: "BaseNeurons_forward example_leak_probe (example_fast\<lparr>self_beta := [2/5, 2/5, 2/5]\<rparr>)
         example_input None (PStr ''spikes'')
       = (case method_call example_leak_probe
                 (MethodFastNaive 5 example_spike_func 100 (clamp 0 1 [-3/10, 1/2, 17/10]))
                 example_input (clamp 0 1 [2/5, 2/5, 2/5]) None (PStr ''spikes'') of
            (r, s') \<Rightarrow>
              (r, example_fast\<lparr>self_beta := [2/5, 2/5, 2/5], self_method_func := Some s'\<rparr>))"
    using fast [THEN conjunct2, THEN conjunct2, THEN conjunct1] a by simp
  have c: "self_method_func example_unknown = None"
    using unknown [THEN conjunct2, THEN conjunct1] by simp
  have d: "BaseNeurons_forward example_leak_probe (example_unknown\<lparr>self_beta := [2/5]\<rparr>)
         example_input None (PStr ''spikes'')
       = (Inl TypeError, example_unknown\<lparr>self_beta := [2/5]\<rparr>)"
    using unknown [THEN conjunct2, THEN conjunct2, THEN conjunct1] c by simp
  have e: "self_method_func example_linear = self_method_func (example_standard LinearNeurons)"
    "self_method_func example_poly = self_method_func (example_standard PolyNeurons)"
    using fast [THEN conjunct2, THEN conjunct2, THEN conjunct2, THEN conjunct2, THEN conjunct1] fast [THEN conjunct2, THEN conjunct2, THEN conjunct2, THEN conjunct2, THEN conjunct2, THEN conjunct2, THEN conjunct1] example_subclass_init(1,3) example_standard_init by auto
  have g: "self_method_func example_conv = self_method_func (example_standard ConvNeurons)"
    "self_method_func example_polyconv = self_method_func (example_standard PolyConvNeurons)"
    using unknown [THEN conjunct2, THEN conjunct2, THEN conjunct2, THEN conjunct2, THEN conjunct2, THEN conjunct1] unknown [THEN conjunct2, THEN conjunct2, THEN conjunct2, THEN conjunct2, THEN conjunct2, THEN conjunct2, THEN conjunct2, THEN conjunct1] example_subclass_init(2,4) example_standard_init
    by auto
  show ?thesis
    using example_fast_init example_unknown_init example_subclass_init a b c d e g by blast
qed

section \<open>The recurrent flag and the fast method\<close>

text \<open>
  C4. The specification asks that the recurrent flag together with "fast_naive" is
  refused. It is not: the constructor returns a layer, the same layer as without the
  flag, and a forward call on it is the call of the strategy with nothing that tells
  of the flag.
\<close>

theorem recurrent_with_fast_naive_counterexample:
  "BaseNeurons_init BaseNeurons ''fast_naive'' 5 [9/10] False example_spike_func 10 example_kwargs
     = Inr example_fast_recurrent
   \<and> BaseNeurons_init BaseNeurons ''fast_naive'' 5 [9/10] False example_spike_func 10 Map.empty
     = Inr example_fast_recurrent
   \<and> truthy (dict_get example_kwargs ''recurrent'' (PBool False))
   \<and> fst (BaseNeurons_forward example_strategy example_fast_recurrent example_input None
            (PStr ''spikes''))
       = example_strategy (MethodFastNaive 5 example_spike_func 10 [9/10]) example_input [9/10]
           None (PStr ''spikes'')"
  by (simp add: BaseNeurons_init_fast_naive example_fast_recurrent_def clamp_def
        example_kwargs_def dict_get_def BaseNeurons_forward_def method_call_def beta_def)

text \<open>
  C4, as the code has it. With the method "fast_naive" the keyword \<open>recurrent\<close> is not
  read: the constructor of the base class returns the layer with a \<open>MethodFastNaive\<close>
  built from the timestep count, the spike function, the scale and the clamped leak,
  each of the five constructors gives the same outcome with the keyword as without,
  and a forward call on the layer is the call of that strategy object.
\<close>

theorem fast_naive_ignores_recurrent:
  "BaseNeurons_init c ''fast_naive'' t_len beta_init g sf sc (kwargs(''recurrent'' \<mapsto> v))
     = Inr \<lparr>self_class = c, self_method = ''fast_naive'', self_t_len = t_len,
            self_beta_init = beta_init, self_beta_requires_grad = g, self_spike_func = sf,
            self_scale = sc, self_beta = beta_init,
            self_method_func = Some (MethodFastNaive t_len sf sc (clamp 0 1 beta_init))\<rparr>
   \<and> BaseNeurons_init c ''fast_naive'' t_len beta_init g sf sc (kwargs(''recurrent'' \<mapsto> v))
     = BaseNeurons_init c ''fast_naive'' t_len beta_init g sf sc (kwargs(''recurrent'' := None))
   \<and> fst (BaseNeurons_forward f
            \<lparr>self_class = c, self_method = ''fast_naive'', self_t_len = t_len,
             self_beta_init = beta_init, self_beta_requires_grad = g, self_spike_func = sf,
             self_scale = sc, self_beta = beta_init,
             self_method_func = Some (MethodFastNaive t_len sf sc (clamp 0 1 beta_init))\<rparr>
            x v_init return_type)
       = f (MethodFastNaive t_len sf sc (clamp 0 1 beta_init)) x (clamp 0 1 beta_init) v_init
           return_type
   \<and> LinearNeurons_init n_in n_out ''fast_naive'' t_len beta_init g sf sc
         (kwargs(''recurrent'' \<mapsto> v)) made_l
     = LinearNeurons_init n_in n_out ''fast_naive'' t_len beta_init g sf sc
         (kwargs(''recurrent'' := None)) made_l
   \<and> ConvNeurons_init n_in n_out kern stride ''fast_naive'' t_len beta_init g sf sc
         (kwargs(''recurrent'' \<mapsto> v)) made_c
     = ConvNeurons_init n_in n_out kern stride ''fast_naive'' t_len beta_init g sf sc
         (kwargs(''recurrent'' := None)) made_c
   \<and> PolyNeurons_init n_in n_out ''fast_naive'' t_len beta_init g sf sc
         (kwargs(''recurrent'' \<mapsto> v)) made_l made_l2
     = PolyNeurons_init n_in n_out ''fast_naive'' t_len beta_init g sf sc
         (kwargs(''recurrent'' := None)) made_l made_l2
   \<and> PolyConvNeurons_init n_in n_out kern stride ''fast_naive'' t_len beta_init g sf sc
         (kwargs(''recurrent'' \<mapsto> v)) made_c made_c2
     = PolyConvNeurons_init n_in n_out kern stride ''fast_naive'' t_len beta_init g sf sc
         (kwargs(''recurrent'' := None)) made_c made_c2"
  by (simp add: BaseNeurons_init_fast_naive LinearNeurons_init_def ConvNeurons_init_def
        PolyNeurons_init_def PolyConvNeurons_init_def dict_get_def Let_def
        BaseNeurons_forward_def method_call_def beta_def split: sum.splits)

section \<open>The hyperparameter snapshot\<close>



section \<open>The recurrent source\<close>

lemma get_recurrent_current_raises:
  "get_recurrent_current c spikes = Inl NotImplementedError"
  by (cases c) (simp_all add: BaseNeurons_get_recurrent_current_def)

text \<open>
  C10. \<open>get_recurrent_current\<close> raises \<open>NotImplementedError\<close> for every class. With
  the method "standard" and the recurrent flag set the constructor of the base class
  returns a layer whose strategy holds the bound method, and calling that bound method
  raises. The constructors of the subclasses return such a layer too, when the
  library made their transforms and the bound of the first weights can be computed
  (a positive number of inputs; for the convolutional layers the default \<open>sc\<close>).
\<close>

theorem recurrent_source_not_implemented:
  assumes "truthy (dict_get kwargs ''recurrent'' (PBool False))"
  shows "(\<forall>c' spikes. get_recurrent_current c' spikes = Inl NotImplementedError)
       \<and> (\<exists>self single_spike integrator.
             BaseNeurons_init c ''standard'' t_len beta_init g sf sc kwargs = Inr self
           \<and> self_method_func self
               = Some (MethodStandard t_len sf sc single_spike integrator
                         (Some (Get_recurrent_current c)))
           \<and> (\<forall>spikes. invoke (Get_recurrent_current c) spikes = Inl NotImplementedError))
       \<and> (0 < n_in \<longrightarrow>
            (\<exists>self single_spike integrator.
               LinearNeurons_init n_in n_out ''standard'' t_len beta_init g sf sc kwargs (Inr fc)
                 = Inr self
             \<and> self_method_func self
                 = Some (MethodStandard t_len sf sc single_spike integrator
                           (Some (Get_recurrent_current LinearNeurons))))
          \<and> (\<exists>self single_spike integrator.
               PolyNeurons_init n_in n_out ''standard'' t_len beta_init g sf sc kwargs
                   (Inr fc) (Inr fc')
                 = Inr self
             \<and> self_method_func self
                 = Some (MethodStandard t_len sf sc single_spike integrator
                           (Some (Get_recurrent_current PolyNeurons)))))
       \<and> (0 < kern * kern * n_in \<and> kwargs ''sc'' = None \<longrightarrow>
            (\<exists>self single_spike integrator.
               ConvNeurons_init n_in n_out kern stride ''standard'' t_len beta_init g sf sc kwargs
                   (Inr conv)
                 = Inr self
             \<and> self_method_func self
                 = Some (MethodStandard t_len sf sc single_spike integrator
                           (Some (Get_recurrent_current ConvNeurons))))
          \<and> (\<exists>self single_spike integrator.
               PolyConvNeurons_init n_in n_out kern stride ''standard'' t_len beta_init g sf sc
                   kwargs (Inr conv) (Inr conv')
                 = Inr self
             \<and> self_method_func self
                 = Some (MethodStandard t_len sf sc single_spike integrator
                           (Some (Get_recurrent_current PolyConvNeurons)))))"
  using assms
  by (simp add: BaseNeurons_init_standard get_recurrent_current_raises LinearNeurons_init_def
        PolyNeurons_init_def ConvNeurons_init_def PolyConvNeurons_init_def sqrt_bound_def
        scaled_bound_def dict_get_def extend_method_func Let_def)


theorem recurrent_source_not_implemented_witness:
  "truthy (dict_get example_kwargs ''recurrent'' (PBool False))
   \<and> (0::nat) < 2 \<and> (0::nat) < 1 * 1 * 2 \<and> example_kwargs ''sc'' = None
   \<and> BaseNeurons_init LinearNeurons ''standard'' 5 [9/10] False example_spike_func 10 example_kwargs
       = Inr (example_standard LinearNeurons)
   \<and> invoke (Get_recurrent_current LinearNeurons) example_input = Inl NotImplementedError
   \<and> (\<exists>self. LinearNeurons_init 2 1 ''standard'' 5 [9/10] False example_spike_func 10
                 example_kwargs (Inr (poly_fc1 example_poly)) = Inr self)
   \<and> (\<exists>self. ConvNeurons_init 2 1 1 1 ''standard'' 5 [9/10] False example_spike_func 10
                 example_kwargs (Inr (\<lambda>x. Inr x)) = Inr self)"
proof -
  have t: "truthy (dict_get example_kwargs ''recurrent'' (PBool False))"
    by (simp add: example_kwargs_def dict_get_def)
  have k: "example_kwargs ''sc'' = None"
    by (simp add: example_kwargs_def)
  note inst = recurrent_source_not_implemented [OF t, where t_len = 5 and beta_init = "[9/10]"
      and g = False and sf = example_spike_func and sc = 10 and n_in = 2 and n_out = 1
      and kern = 1 and stride = 1 and fc = "poly_fc1 example_poly" and fc' = "poly_fc2 example_poly"
      and conv = "\<lambda>x. Inr x" and conv' = "\<lambda>x. Inr x"]
  have a: "invoke (Get_recurrent_current LinearNeurons) example_input = Inl NotImplementedError"
    using inst [where c = LinearNeurons] by blast
  have b: "\<exists>self. LinearNeurons_init 2 1 ''standard'' 5 [9/10] False example_spike_func 10
                 example_kwargs (Inr (poly_fc1 example_poly)) = Inr self"
    using inst [where c = LinearNeurons] by auto
  have c: "\<exists>self. ConvNeurons_init 2 1 1 1 ''standard'' 5 [9/10] False example_spike_func 10
                 example_kwargs (Inr (\<lambda>x. Inr x)) = Inr self"
    using inst [where c = ConvNeurons] k by auto
  show ?thesis
    using t k a b c example_standard_init [of LinearNeurons] by simp
qed

section \<open>The spatial layout\<close>

lemma spatial_forward_layout:
  fixes self :: "'a base_neurons_scheme"
  assumes cur: "wf_tensor current" "shape current = [B, N, T, H, W]"
    and flat: "\<not> truthy flat"
    and s: "self_method_func self = Some s"
  shows "\<exists>F. to_neuron_axis current = Inr F \<and> wf_tensor F \<and> shape F = [B, N * H * W, T]
           \<and> neuron_layout B N T H W current F
           \<and> from_neuron_axis flat B N T H W F = Inr current
           \<and> (\<forall>S. f s F (beta self) v rt = Inr S \<and> wf_tensor S \<and> shape S = [B, N * H * W, T]
                \<longrightarrow> (\<exists>R. fst (spatial_forward f flat self current v rt) = Inr R
                          \<and> wf_tensor R \<and> shape R = [B, N, T, H, W]
                          \<and> neuron_layout B N T H W R S))"
proof -
  obtain F where F: "to_neuron_axis current = Inr F"
    using to_neuron_axis_eq [OF cur(2)] by simp
  have Fs: "wf_tensor F" "shape F = [B, N * H * W, T]"
    using to_neuron_axis_wf [OF F cur(2)] by simp_all
  have lay: "neuron_layout B N T H W current F"
    unfolding neuron_layout_def using to_neuron_axis_entry [OF F cur(2)] by simp
  have inv: "from_neuron_axis flat B N T H W F = Inr current"
    using neuron_axis_roundtrip [OF F cur flat] .
  have run: "\<exists>R. fst (spatial_forward f flat self current v rt) = Inr R
                          \<and> wf_tensor R \<and> shape R = [B, N, T, H, W]
                          \<and> neuron_layout B N T H W R S"
    if S: "f s F (beta self) v rt = Inr S" "wf_tensor S" "shape S = [B, N * H * W, T]" for S
  proof -
    obtain R where R: "from_neuron_axis flat B N T H W S = Inr R"
      using from_neuron_axis_eq [OF flat S(2,3)] by simp
    have Rs: "wf_tensor R" "shape R = [B, N, T, H, W]"
      using from_neuron_axis_shape [OF R flat S(2,3)] by simp_all
    have Rl: "neuron_layout B N T H W R S"
      unfolding neuron_layout_def using from_neuron_axis_entry [OF R flat S(2,3)] by simp
    have "fst (spatial_forward f flat self current v rt) = Inr R"
      using cur(2) F s S(1) R
      by (simp add: spatial_forward_def raise_or_def BaseNeurons_forward_def method_call_def)
    then show ?thesis using Rs Rl by blast
  qed
  show ?thesis using F Fs lay inv run by blast
qed

text \<open>
  C7. For \<open>ConvNeurons\<close> and \<open>PolyConvNeurons\<close> with the flatten option off and a current
  of shape \<open>[B, N, T, H, W]\<close>: the strategy receives the tensor \<open>F\<close> of shape
  \<open>[B, N * H * W, T]\<close> that holds the entries of the current in the neuron layout, the
  steps after the strategy map \<open>F\<close> back to the current, and for an output \<open>S\<close> of the
  strategy of that shape the call returns a tensor \<open>R\<close> of shape \<open>[B, N, T, H, W]\<close>
  whose entry at \<open>[b, c, t, i, j]\<close> is the entry of \<open>S\<close> at \<open>[b, c * H * W + i * W + j, t]\<close>.
\<close>

theorem forward_restores_spatial_layout:
  assumes "wf_tensor current" "shape current = [B, N, T, H, W]"
  shows "(conv_to_current conv x = Inr current \<and> \<not> truthy (conv_flatten conv)
            \<and> self_method_func conv = Some s
          \<longrightarrow> (\<exists>F. to_neuron_axis current = Inr F \<and> wf_tensor F \<and> shape F = [B, N * H * W, T]
                 \<and> neuron_layout B N T H W current F
                 \<and> from_neuron_axis (conv_flatten conv) B N T H W F = Inr current
                 \<and> (\<forall>S. f s F (beta conv) v rt = Inr S \<and> wf_tensor S
                          \<and> shape S = [B, N * H * W, T]
                      \<longrightarrow> (\<exists>R. fst (ConvNeurons_forward f conv x v rt) = Inr R
                                \<and> wf_tensor R \<and> shape R = [B, N, T, H, W]
                                \<and> neuron_layout B N T H W R S))))
       \<and> (PolyConvNeurons_to_current polyconv x = Inr current \<and> \<not> truthy (polyconv_flatten polyconv)
            \<and> self_method_func polyconv = Some s
          \<longrightarrow> (\<exists>F. to_neuron_axis current = Inr F \<and> wf_tensor F \<and> shape F = [B, N * H * W, T]
                 \<and> neuron_layout B N T H W current F
                 \<and> from_neuron_axis (polyconv_flatten polyconv) B N T H W F = Inr current
                 \<and> (\<forall>S. f s F (beta polyconv) v rt = Inr S \<and> wf_tensor S
                          \<and> shape S = [B, N * H * W, T]
                      \<longrightarrow> (\<exists>R. fst (PolyConvNeurons_forward f polyconv x v rt) = Inr R
                                \<and> wf_tensor R \<and> shape R = [B, N, T, H, W]
                                \<and> neuron_layout B N T H W R S))))"
proof (intro conjI impI)
  assume a: "conv_to_current conv x = Inr current \<and> \<not> truthy (conv_flatten conv)
            \<and> self_method_func conv = Some s"
  then have fw: "ConvNeurons_forward f conv x v rt
          = spatial_forward f (conv_flatten conv) conv current v rt"
    by (simp add: ConvNeurons_forward_def raise_or_def)
  show "\<exists>F. to_neuron_axis current = Inr F \<and> wf_tensor F \<and> shape F = [B, N * H * W, T]
                 \<and> neuron_layout B N T H W current F
                 \<and> from_neuron_axis (conv_flatten conv) B N T H W F = Inr current
                 \<and> (\<forall>S. f s F (beta conv) v rt = Inr S \<and> wf_tensor S
                          \<and> shape S = [B, N * H * W, T]
                      \<longrightarrow> (\<exists>R. fst (ConvNeurons_forward f conv x v rt) = Inr R
                                \<and> wf_tensor R \<and> shape R = [B, N, T, H, W]
                                \<and> neuron_layout B N T H W R S))"
    unfolding fw using spatial_forward_layout [OF assms, of "conv_flatten conv" conv s f v rt] a
    by simp
next
  assume a: "PolyConvNeurons_to_current polyconv x = Inr current
            \<and> \<not> truthy (polyconv_flatten polyconv) \<and> self_method_func polyconv = Some s"
  then have fw: "PolyConvNeurons_forward f polyconv x v rt
          = spatial_forward f (polyconv_flatten polyconv) polyconv current v rt"
    by (simp add: PolyConvNeurons_forward_def raise_or_def)
  show "\<exists>F. to_neuron_axis current = Inr F \<and> wf_tensor F \<and> shape F = [B, N * H * W, T]
                 \<and> neuron_layout B N T H W current F
                 \<and> from_neuron_axis (polyconv_flatten polyconv) B N T H W F = Inr current
                 \<and> (\<forall>S. f s F (beta polyconv) v rt = Inr S \<and> wf_tensor S
                          \<and> shape S = [B, N * H * W, T]
                      \<longrightarrow> (\<exists>R. fst (PolyConvNeurons_forward f polyconv x v rt) = Inr R
                                \<and> wf_tensor R \<and> shape R = [B, N, T, H, W]
                                \<and> neuron_layout B N T H W R S))"
    unfolding fw
    using spatial_forward_layout [OF assms, of "polyconv_flatten polyconv" polyconv s f v rt] a
    by simp
qed

lemma example_polyconv_current:
  "PolyConvNeurons_to_current example_polyconv example_current = Inr example_current"
  by (simp add: PolyConvNeurons_to_current_def example_polyconv_def example_current_def
        base_neurons.defs polyconv_neurons.defs tmul_def add_scalar_def tabulate_def
        broadcast_shapes_def broadcast_index_def entry_def numel_def upt_conv_Cons)

theorem forward_restores_spatial_layout_witness:
  "wf_tensor example_current \<and> shape example_current = [1, 1, 2, 1, 2]
   \<and> conv_to_current example_conv example_current = Inr example_current
   \<and> \<not> truthy (conv_flatten example_conv)
   \<and> PolyConvNeurons_to_current example_polyconv example_current = Inr example_current
   \<and> \<not> truthy (polyconv_flatten example_polyconv)
   \<and> (\<exists>R. fst (ConvNeurons_forward example_strategy example_conv example_current None
                 (PStr ''spikes'')) = Inr R
          \<and> shape R = [1, 1, 2, 1, 2] \<and> entry R [0, 0, 1, 0, 1] = 4)
   \<and> (\<exists>R. fst (PolyConvNeurons_forward example_strategy example_polyconv example_current None
                 (PStr ''spikes'')) = Inr R
          \<and> shape R = [1, 1, 2, 1, 2] \<and> entry R [0, 0, 1, 0, 1] = 4)"
proof -
  let ?s = "MethodStandard 5 example_spike_func 10 (PBool False) (PBool False)"
  have wf: "wf_tensor example_current" and sh: "shape example_current = [1, 1, 2, 1, 2]"
    by (simp_all add: wf_tensor_def example_current_def numel_def)
  have c1: "conv_to_current example_conv example_current = Inr example_current"
    and c2: "\<not> truthy (conv_flatten example_conv)"
    and c3: "self_method_func example_conv = Some (?s (Some (Get_recurrent_current ConvNeurons)))"
    by (simp_all add: example_conv_def example_standard_def base_neurons.defs conv_neurons.defs)
  have p1: "PolyConvNeurons_to_current example_polyconv example_current = Inr example_current"
    by (rule example_polyconv_current)
  have p2: "\<not> truthy (polyconv_flatten example_polyconv)"
    and p3: "self_method_func example_polyconv
               = Some (?s (Some (Get_recurrent_current PolyConvNeurons)))"
    by (simp_all add: example_polyconv_def example_standard_def base_neurons.defs
          polyconv_neurons.defs)
  have e: "entry example_current [0, 0, 1, 0, 1] = 4"
    by (simp add: example_current_def entry_def numel_def)
  note inst = forward_restores_spatial_layout [OF wf sh, where f = example_strategy
      and v = None and rt = "PStr ''spikes''" and x = example_current]
  have "\<exists>R. fst (ConvNeurons_forward example_strategy example_conv example_current None
                 (PStr ''spikes'')) = Inr R \<and> shape R = [1, 1, 2, 1, 2]
            \<and> entry R [0, 0, 1, 0, 1] = 4"
    using inst [THEN conjunct1, of example_conv "?s (Some (Get_recurrent_current ConvNeurons))"]
      c1 c2 c3 e
    by (auto simp: example_strategy_def neuron_layout_def)
  moreover
  have "\<exists>R. fst (PolyConvNeurons_forward example_strategy example_polyconv example_current None
                 (PStr ''spikes'')) = Inr R \<and> shape R = [1, 1, 2, 1, 2]
            \<and> entry R [0, 0, 1, 0, 1] = 4"
    using inst [THEN conjunct2, of example_polyconv
        "?s (Some (Get_recurrent_current PolyConvNeurons))"] p1 p2 p3 e
    by (auto simp: example_strategy_def neuron_layout_def)
  ultimately show ?thesis using wf sh c1 c2 p1 p2 by blast
qed

section \<open>The polynomial current\<close>

lemma source_index_swap: "source_index [0, 2, 1] [a, c, b] = [a, b, c]"
  by (simp add: source_index_def upt_conv_Cons)

lemma permute_swap:
  assumes "shape X = [A, B, C]"
  shows "permute [0, 2, 1] X
           = Inr (tabulate [A, C, B] (\<lambda>idx. entry X (source_index [0, 2, 1] idx)))"
  using assms by (simp add: permute_def)

lemma broadcast_rev_same: "broadcast_rev xs xs = Some xs"
  by (induction xs) auto

lemma broadcast_shapes_same: "broadcast_shapes sh sh = Some sh"
  by (simp add: broadcast_shapes_def broadcast_rev_same)

lemma broadcast_index_same: "in_shape idx sh \<Longrightarrow> broadcast_index sh idx = idx"
proof -
  assume "in_shape idx sh"
  then have "list_all2 (<) idx sh" by (simp add: in_shape_def)
  then have "map2 (\<lambda>d i. if d = 1 then 0 else i) sh idx = idx"
    by (induction rule: list_all2_induct) auto
  moreover have "length idx = length sh"
    using \<open>list_all2 (<) idx sh\<close> by (rule list_all2_lengthD)
  ultimately show ?thesis by (simp add: broadcast_index_def)
qed

lemma tmul_same_shape:
  assumes "shape A = shape B"
  shows "\<exists>C. tmul A B = Inr C \<and> wf_tensor C \<and> shape C = shape A
           \<and> (\<forall>idx. in_shape idx (shape A) \<longrightarrow> entry C idx = entry A idx * entry B idx)"
proof -
  let ?C = "tabulate (shape A) (\<lambda>idx. entry A (broadcast_index (shape A) idx)
                                  * entry B (broadcast_index (shape B) idx))"
  have "tmul A B = Inr ?C"
    using assms by (simp add: tmul_def broadcast_shapes_same)
  moreover have "entry ?C idx = entry A idx * entry B idx" if "in_shape idx (shape A)" for idx
    using that assms by (simp add: entry_tabulate broadcast_index_same)
  ultimately show ?thesis by (simp add: wf_tabulate shape_tabulate)
qed

lemma add_scalar_entry:
  assumes "wf_tensor T" "in_shape idx (shape T)"
  shows "entry (add_scalar c T) idx = entry T idx + c"
  using assms ravel_less [OF assms(2)]
  by (simp add: entry_def add_scalar_def wf_tensor_def)

lemma add_scalar_shape: "shape (add_scalar c T) = shape T"
  by (simp add: add_scalar_def)

lemma linear_call_eq:
  assumes "shape x = [B, T, in_features L]"
  shows "linear_call L x
           = Inr (tabulate [B, T, out_features L]
                    (\<lambda>idx. affine L (\<lambda>i. entry x (butlast idx @ [i])) (last idx)))"
  using assms by (simp add: linear_call_def)

lemma linear_call_entry:
  assumes "shape x = [B, T, in_features L]" "linear_call L x = Inr y"
    and "b < B" "t < T" "j < out_features L"
  shows "entry y [b, t, j] = affine L (\<lambda>i. entry x [b, t, i]) j"
proof -
  have "in_shape [b, t, j] [B, T, out_features L]" using assms by (simp add: in_shape3)
  then show ?thesis
    using assms(2) unfolding linear_call_eq [OF assms(1)]
    by (auto simp: entry_tabulate)
qed

lemma linear_call_shape:
  assumes "shape x = [B, T, in_features L]" "linear_call L x = Inr y"
  shows "wf_tensor y \<and> shape y = [B, T, out_features L]"
  using assms(2) unfolding linear_call_eq [OF assms(1)]
  by (auto simp: wf_tabulate shape_tabulate)

lemma affine_cong:
  "(\<And>i. i < in_features L \<Longrightarrow> u i = w i) \<Longrightarrow> affine L u j = affine L w j"
  unfolding affine_def
  by (rule arg_cong [where f = "\<lambda>z. z + entry (bias L) [j]"], rule arg_cong [where f = sum_list])
     (simp)

lemma PolyNeurons_to_current_entry:
  assumes x: "shape x = [B, T, n_in]"
    and fc1: "in_features (poly_fc1 poly) = n_in" "out_features (poly_fc1 poly) = n_out"
    and fc2: "in_features (poly_fc2 poly) = n_in" "out_features (poly_fc2 poly) = n_out"
  shows "\<exists>y. PolyNeurons_to_current poly x = Inr y \<and> wf_tensor y \<and> shape y = [B, T, n_out]
           \<and> (\<forall>b<B. \<forall>t<T. \<forall>j<n_out.
                 entry y [b, t, j]
                   = (affine (poly_fc2 poly) (\<lambda>i. entry x [b, t, i]) j + 1)
                       * affine (poly_fc1 poly) (\<lambda>i. entry x [b, t, i]) j)"
proof -
  have x1: "shape x = [B, T, in_features (poly_fc1 poly)]"
    and x2: "shape x = [B, T, in_features (poly_fc2 poly)]"
    using x fc1 fc2 by simp_all
  obtain y1 where y1: "linear_call (poly_fc1 poly) x = Inr y1"
    using linear_call_eq [OF x1] by simp
  obtain y2 where y2: "linear_call (poly_fc2 poly) x = Inr y2"
    using linear_call_eq [OF x2] by simp
  have s1: "wf_tensor y1" "shape y1 = [B, T, n_out]"
    using linear_call_shape [OF x1 y1] fc1 by simp_all
  have s2: "wf_tensor y2" "shape y2 = [B, T, n_out]"
    using linear_call_shape [OF x2 y2] fc2 by simp_all
  have "shape (add_scalar 1 y2) = shape y1"
    using s1 s2 by (simp add: add_scalar_shape)
  from tmul_same_shape [OF this]
  obtain y where y: "tmul (add_scalar 1 y2) y1 = Inr y" "wf_tensor y"
    "shape y = shape (add_scalar 1 y2)"
    "\<And>idx. in_shape idx (shape (add_scalar 1 y2))
        \<Longrightarrow> entry y idx = entry (add_scalar 1 y2) idx * entry y1 idx"
    by blast
  have call: "PolyNeurons_to_current poly x = Inr y"
    using y1 y2 y(1) by (simp add: PolyNeurons_to_current_def)
  have sh: "shape y = [B, T, n_out]"
    using y(3) s2 by (simp add: add_scalar_shape)
  have "entry y [b, t, j]
          = (affine (poly_fc2 poly) (\<lambda>i. entry x [b, t, i]) j + 1)
              * affine (poly_fc1 poly) (\<lambda>i. entry x [b, t, i]) j"
    if lt: "b < B" "t < T" "j < n_out" for b t j
  proof -
    have ins: "in_shape [b, t, j] (shape y2)"
      using lt s2 by (simp add: in_shape3)
    then have "entry y [b, t, j] = entry (add_scalar 1 y2) [b, t, j] * entry y1 [b, t, j]"
      using y(4) by (simp add: add_scalar_shape)
    also have "entry (add_scalar 1 y2) [b, t, j] = entry y2 [b, t, j] + 1"
      using add_scalar_entry [OF s2(1) ins] .
    also have "entry y2 [b, t, j] = affine (poly_fc2 poly) (\<lambda>i. entry x [b, t, i]) j"
      using linear_call_entry [OF x2 y2 lt(1,2)] lt(3) fc2 by simp
    also have "entry y1 [b, t, j] = affine (poly_fc1 poly) (\<lambda>i. entry x [b, t, i]) j"
      using linear_call_entry [OF x1 y1 lt(1,2)] lt(3) fc1 by simp
    finally show ?thesis .
  qed
  then show ?thesis using call y(2) sh by blast
qed


lemma PolyNeurons_forward_current:
  assumes x: "shape x = [B, n_in, T]"
    and fc1: "in_features (poly_fc1 poly) = n_in" "out_features (poly_fc1 poly) = n_out"
    and fc2: "in_features (poly_fc2 poly) = n_in" "out_features (poly_fc2 poly) = n_out"
  shows "\<exists>current. PolyNeurons_forward f poly x v rt = BaseNeurons_forward f poly current v rt
           \<and> wf_tensor current \<and> shape current = [B, n_out, T]
           \<and> (\<forall>b<B. \<forall>j<n_out. \<forall>t<T.
                 entry current [b, j, t]
                   = (affine (poly_fc2 poly) (\<lambda>i. entry x [b, i, t]) j + 1)
                       * affine (poly_fc1 poly) (\<lambda>i. entry x [b, i, t]) j)"
proof -
  let ?x1 = "tabulate [B, T, n_in] (\<lambda>idx. entry x (source_index [0, 2, 1] idx))"
  have p1: "permute [0, 2, 1] x = Inr ?x1"
    by (rule permute_swap [OF x])
  have x1: "shape ?x1 = [B, T, n_in]" by (simp add: shape_tabulate)
  have x1e: "entry ?x1 [b, t, i] = entry x [b, i, t]" if "b < B" "t < T" "i < n_in" for b t i
  proof -
    have "in_shape [b, t, i] [B, T, n_in]" using that by (simp add: in_shape3)
    then show ?thesis by (simp add: entry_tabulate source_index_swap del: One_nat_def)
  qed
  from PolyNeurons_to_current_entry [OF x1 fc1 fc2]
  obtain y where y: "PolyNeurons_to_current poly ?x1 = Inr y" "wf_tensor y"
    "shape y = [B, T, n_out]"
    "\<And>b t j. b < B \<Longrightarrow> t < T \<Longrightarrow> j < n_out \<Longrightarrow>
        entry y [b, t, j]
          = (affine (poly_fc2 poly) (\<lambda>i. entry ?x1 [b, t, i]) j + 1)
              * affine (poly_fc1 poly) (\<lambda>i. entry ?x1 [b, t, i]) j"
    by blast
  let ?cur = "tabulate [B, n_out, T] (\<lambda>idx. entry y (source_index [0, 2, 1] idx))"
  have p2: "permute [0, 2, 1] y = Inr ?cur"
    by (rule permute_swap [OF y(3)])
  have fw: "PolyNeurons_forward f poly x v rt = BaseNeurons_forward f poly ?cur v rt"
    unfolding PolyNeurons_forward_def p1 raise_or_def
    by (simp only: sum.case y(1) p2)
  have "entry ?cur [b, j, t]
          = (affine (poly_fc2 poly) (\<lambda>i. entry x [b, i, t]) j + 1)
              * affine (poly_fc1 poly) (\<lambda>i. entry x [b, i, t]) j"
    if lt: "b < B" "j < n_out" "t < T" for b j t
  proof -
    have "in_shape [b, j, t] [B, n_out, T]" using lt by (simp add: in_shape3)
    then have "entry ?cur [b, j, t] = entry y [b, t, j]"
      by (simp add: entry_tabulate source_index_swap del: One_nat_def)
    also have "\<dots> = (affine (poly_fc2 poly) (\<lambda>i. entry ?x1 [b, t, i]) j + 1)
              * affine (poly_fc1 poly) (\<lambda>i. entry ?x1 [b, t, i]) j"
      using y(4) lt by simp
    also have "affine (poly_fc2 poly) (\<lambda>i. entry ?x1 [b, t, i]) j
                 = affine (poly_fc2 poly) (\<lambda>i. entry x [b, i, t]) j"
      by (rule affine_cong) (simp add: x1e lt fc2 del: One_nat_def)
    also have "affine (poly_fc1 poly) (\<lambda>i. entry ?x1 [b, t, i]) j
                 = affine (poly_fc1 poly) (\<lambda>i. entry x [b, i, t]) j"
      by (rule affine_cong) (simp add: x1e lt fc1 del: One_nat_def)
    finally show ?thesis .
  qed
  then show ?thesis using fw by (auto simp: wf_tabulate shape_tabulate)
qed

lemma PolyConvNeurons_to_current_entry:
  assumes "polyconv_conv_1 polyconv x = Inr y1" "polyconv_conv_2 polyconv x = Inr y2"
    and "wf_tensor y2" "shape y1 = shape y2"
  shows "\<exists>current. PolyConvNeurons_to_current polyconv x = Inr current
           \<and> wf_tensor current \<and> shape current = shape y1
           \<and> (\<forall>idx. in_shape idx (shape y1)
                 \<longrightarrow> entry current idx = entry y1 idx * (1 + entry y2 idx))
           \<and> PolyConvNeurons_forward f polyconv x v rt
               = spatial_forward f (polyconv_flatten polyconv) polyconv current v rt"
proof -
  have "shape y1 = shape (add_scalar 1 y2)"
    using assms(4) by (simp add: add_scalar_shape)
  from tmul_same_shape [OF this]
  obtain c where c: "tmul y1 (add_scalar 1 y2) = Inr c" "wf_tensor c" "shape c = shape y1"
    "\<And>idx. in_shape idx (shape y1) \<Longrightarrow> entry c idx = entry y1 idx * entry (add_scalar 1 y2) idx"
    by blast
  have call: "PolyConvNeurons_to_current polyconv x = Inr c"
    using assms(1,2) c(1) by (simp add: PolyConvNeurons_to_current_def)
  have fw: "PolyConvNeurons_forward f polyconv x v rt
               = spatial_forward f (polyconv_flatten polyconv) polyconv c v rt"
    by (simp add: PolyConvNeurons_forward_def raise_or_def call)
  have "entry c idx = entry y1 idx * (1 + entry y2 idx)" if "in_shape idx (shape y1)" for idx
    using c(4) [OF that] add_scalar_entry [OF assms(3), of idx 1] that assms(4)
    by (simp add: add.commute)
  then show ?thesis using call c(2,3) fw by blast
qed

text \<open>
  C9. For \<open>PolyNeurons\<close> and an input of shape \<open>[B, n_in, T]\<close>, the current given to the
  strategy has shape \<open>[B, n_out, T]\<close> and its entry at \<open>[b, j, t]\<close> is
  \<open>(fc2 + 1) * fc1 = fc1 * (1 + fc2)\<close>, where \<open>fc1\<close> and \<open>fc2\<close> are the two affine maps
  applied to the features of batch item \<open>b\<close> at time \<open>t\<close>. For \<open>PolyConvNeurons\<close> the
  current is, entry by entry, \<open>conv_1 * (1 + conv_2)\<close> of the outputs of its two
  transforms.
\<close>

theorem polynomial_current:
  assumes "shape x = [B, n_in, T]"
    and "in_features (poly_fc1 poly) = n_in" "out_features (poly_fc1 poly) = n_out"
    and "in_features (poly_fc2 poly) = n_in" "out_features (poly_fc2 poly) = n_out"
    and "polyconv_conv_1 polyconv x' = Inr y1" "polyconv_conv_2 polyconv x' = Inr y2"
    and "wf_tensor y2" "shape y1 = shape y2"
    and "wf_linear (poly_fc1 poly)" "wf_linear (poly_fc2 poly)"
  shows "(\<exists>current. PolyNeurons_forward f poly x v rt = BaseNeurons_forward f poly current v rt
           \<and> wf_tensor current \<and> shape current = [B, n_out, T]
           \<and> (\<forall>b<B. \<forall>j<n_out. \<forall>t<T.
                 entry current [b, j, t]
                   = (affine (poly_fc2 poly) (\<lambda>i. entry x [b, i, t]) j + 1)
                       * affine (poly_fc1 poly) (\<lambda>i. entry x [b, i, t]) j
               \<and> entry current [b, j, t]
                   = affine (poly_fc1 poly) (\<lambda>i. entry x [b, i, t]) j
                       * (1 + affine (poly_fc2 poly) (\<lambda>i. entry x [b, i, t]) j)))
       \<and> (\<exists>current. PolyConvNeurons_to_current polyconv x' = Inr current
           \<and> wf_tensor current \<and> shape current = shape y1
           \<and> (\<forall>idx. in_shape idx (shape y1)
                 \<longrightarrow> entry current idx = entry y1 idx * (1 + entry y2 idx))
           \<and> PolyConvNeurons_forward f polyconv x' v rt
               = spatial_forward f (polyconv_flatten polyconv) polyconv current v rt)"
proof -
  from PolyNeurons_forward_current [OF assms(1-5), of f v rt]
  obtain current where c: "PolyNeurons_forward f poly x v rt = BaseNeurons_forward f poly current v rt"
    "wf_tensor current" "shape current = [B, n_out, T]"
    "\<And>b j t. b < B \<Longrightarrow> j < n_out \<Longrightarrow> t < T \<Longrightarrow>
        entry current [b, j, t]
          = (affine (poly_fc2 poly) (\<lambda>i. entry x [b, i, t]) j + 1)
              * affine (poly_fc1 poly) (\<lambda>i. entry x [b, i, t]) j"
    by blast
  have "entry current [b, j, t]
          = affine (poly_fc1 poly) (\<lambda>i. entry x [b, i, t]) j
              * (1 + affine (poly_fc2 poly) (\<lambda>i. entry x [b, i, t]) j)"
    if "b < B" "j < n_out" "t < T" for b j t
    using c(4) [OF that] by (simp add: mult.commute add.commute)
  then have first: "\<exists>current. PolyNeurons_forward f poly x v rt = BaseNeurons_forward f poly current v rt
           \<and> wf_tensor current \<and> shape current = [B, n_out, T]
           \<and> (\<forall>b<B. \<forall>j<n_out. \<forall>t<T.
                 entry current [b, j, t]
                   = (affine (poly_fc2 poly) (\<lambda>i. entry x [b, i, t]) j + 1)
                       * affine (poly_fc1 poly) (\<lambda>i. entry x [b, i, t]) j
               \<and> entry current [b, j, t]
                   = affine (poly_fc1 poly) (\<lambda>i. entry x [b, i, t]) j
                       * (1 + affine (poly_fc2 poly) (\<lambda>i. entry x [b, i, t]) j))"
    using c by blast
  show ?thesis
    using first PolyConvNeurons_to_current_entry [OF assms(6-9), of f v rt] by blast
qed

theorem polynomial_current_witness:
  "shape example_input = [1, 2, 1]
   \<and> in_features (poly_fc1 example_poly) = 2 \<and> out_features (poly_fc1 example_poly) = 1
   \<and> in_features (poly_fc2 example_poly) = 2 \<and> out_features (poly_fc2 example_poly) = 1
   \<and> polyconv_conv_1 example_polyconv example_current = Inr example_current
   \<and> polyconv_conv_2 example_polyconv example_current
        = Inr (tabulate [1, 1, 2, 1, 2] (\<lambda>idx. 0))
   \<and> wf_tensor (tabulate [1, 1, 2, 1, 2] (\<lambda>idx. 0 :: real))
   \<and> shape example_current = shape (tabulate [1, 1, 2, 1, 2] (\<lambda>idx. 0 :: real))
   \<and> wf_linear (poly_fc1 example_poly) \<and> wf_linear (poly_fc2 example_poly)
   \<and> (\<exists>current. PolyNeurons_forward example_strategy example_poly example_input None
                    (PStr ''spikes'')
                  = BaseNeurons_forward example_strategy example_poly current None
                      (PStr ''spikes'')
          \<and> shape current = [1, 1, 1] \<and> entry current [0, 0, 0] = - 22)
   \<and> (\<exists>current. PolyConvNeurons_to_current example_polyconv example_current = Inr current
          \<and> shape current = [1, 1, 2, 1, 2]
          \<and> entry current [0, 0, 1, 0, 1] = 4)"
proof -
  have h1: "shape example_input = [1, 2, 1]"
    by (simp add: example_input_def)
  have h2: "in_features (poly_fc1 example_poly) = 2" "out_features (poly_fc1 example_poly) = 1"
    and h3: "in_features (poly_fc2 example_poly) = 2" "out_features (poly_fc2 example_poly) = 1"
    by (simp_all add: example_poly_def base_neurons.defs poly_neurons.defs example_standard_def)
  have h4: "polyconv_conv_1 example_polyconv example_current = Inr example_current"
    and h5: "polyconv_conv_2 example_polyconv example_current
        = Inr (tabulate [1, 1, 2, 1, 2] (\<lambda>idx. 0))"
    by (simp_all add: example_polyconv_def base_neurons.defs polyconv_neurons.defs
          example_standard_def example_current_def)
  have h6: "wf_tensor (tabulate [1, 1, 2, 1, 2] (\<lambda>idx. 0 :: real))"
    by (rule wf_tabulate)
  have h7: "shape example_current = shape (tabulate [1, 1, 2, 1, 2] (\<lambda>idx. 0 :: real))"
    by (simp add: example_current_def shape_tabulate)
  have h8: "wf_linear (poly_fc1 example_poly)" and h9: "wf_linear (poly_fc2 example_poly)"
    by (simp_all add: wf_linear_def wf_tensor_def numel_def example_poly_def base_neurons.defs
          poly_neurons.defs example_standard_def)
  have e1: "affine (poly_fc1 example_poly) (\<lambda>i. entry example_input [0, i, 0]) 0 = 22"
    and e2: "affine (poly_fc2 example_poly) (\<lambda>i. entry example_input [0, i, 0]) 0 = - 2"
    by (simp_all add: affine_def example_poly_def base_neurons.defs poly_neurons.defs
          example_standard_def example_input_def entry_def numel_def upt_conv_Cons)
  have e3: "entry example_current [0, 0, 1, 0, 1] = 4"
    and e4: "entry (tabulate [1, 1, 2, 1, 2] (\<lambda>idx. 0 :: real)) [0, 0, 1, 0, 1] = 0"
    and e5: "in_shape [0, 0, 1, 0, 1] (shape example_current)"
    by (simp_all add: example_current_def entry_def numel_def in_shape_def tabulate_def
          upt_conv_Cons)
  note inst = polynomial_current [OF h1 h2 h3 h4 h5 h6 h7 h8 h9, where f = example_strategy
      and v = None and rt = "PStr ''spikes''"]
  have a: "\<exists>current. PolyNeurons_forward example_strategy example_poly example_input None
                    (PStr ''spikes'')
                  = BaseNeurons_forward example_strategy example_poly current None
                      (PStr ''spikes'')
          \<and> shape current = [1, 1, 1] \<and> entry current [0, 0, 0] = - 22"
    using inst [THEN conjunct1] e1 e2 by auto
  have b: "\<exists>current. PolyConvNeurons_to_current example_polyconv example_current = Inr current
          \<and> shape current = [1, 1, 2, 1, 2]
          \<and> entry current [0, 0, 1, 0, 1] = 4"
    using inst [THEN conjunct2] e3 e4 e5 by (auto simp: example_current_def)
  show ?thesis using h1 h2 h3 h4 h5 h6 h7 h8 h9 a b by blast
qed

end
